theory Spec2Isabelle
  imports Main "HOL-Library.Word" "HOL-Library.Stream"
begin

section \<open>Data model\<close>

text \<open>
  Go's \<open>int\<close> is a 64-bit two's-complement integer on the usual targets: addition and
  subtraction wrap, comparisons are signed (\<open><s\<close>, \<open>\<le>s\<close>), \<open>sint\<close> reads the value.
\<close>

type_synonym go_int = "64 word"

text \<open>The constants of \<open>padding.go\<close>.\<close>

definition maxPaddingSize :: go_int where
  "maxPaddingSize = 4096"

definition paddingCharset :: string where
  "paddingCharset = ''X''"

record PaddingProfile =
  MinLength :: go_int
  MaxLength :: go_int

text \<open>The initial values of the three package-level preset variables.\<close>

definition ProfileDefault :: PaddingProfile where
  "ProfileDefault = \<lparr>MinLength = 96, MaxLength = 1024\<rparr>"

definition ProfileShort :: PaddingProfile where
  "ProfileShort = \<lparr>MinLength = 32, MaxLength = 256\<rparr>"

definition ProfileLong :: PaddingProfile where
  "ProfileLong = \<lparr>MinLength = 1024, MaxLength = maxPaddingSize\<rparr>"

text \<open>
  \<open>PaddingOptions.Profile\<close> is a pointer \<open>*PaddingProfile\<close>. A pointer is an address in a
  store of \<open>PaddingProfile\<close> objects: the three package-level variables have addresses of
  their own, every other object is \<open>Obj n\<close>. The nil pointer is \<open>None\<close>.
\<close>

datatype addr = Addr_ProfileDefault | Addr_ProfileShort | Addr_ProfileLong | Obj nat

record PaddingOptions =
  HeaderName :: string
  Profile :: "addr option"

text \<open>
  An error value is what its \<open>Error()\<close> method prints; \<open>errors.New\<close> builds one from
  its message. Abnormal control flow: a panic, a goroutine that blocks forever on a mutex
  it holds itself, and the runtime's fatal error. A Go function returning
  \<open>(T, error)\<close> returns \<open>error + T\<close>, the left side being \<open>err != nil\<close>; every function
  also gives back the state it leaves behind, whether it returns or panics.
\<close>

datatype error = Error string

definition errors_New :: "string \<Rightarrow> error" where
  "errors_New msg = Error msg"

datatype fault = panic string | deadlock | fatal string

datatype 'a outcome = Returns 'a | Fails fault

text \<open>
  One call of \<open>rand.Int(rand.Reader, n)\<close> has one of two outcomes: the reader fails with
  an error, or a value is drawn. The source of randomness is the infinite sequence of
  these outcomes.
\<close>

datatype draw = failed error | drawn nat

datatype log_arg = Int_arg go_int | Err_arg error

text \<open>
  The state of the process that the package reads and writes: the pool filled by \<open>init\<close>,
  the store of \<open>PaddingProfile\<close> objects, the random source, and what \<open>log.Printf\<close> has
  been given (format string and arguments, oldest first).
\<close>

record world =
  precomputedPaddingData :: string
  profiles :: "addr \<Rightarrow> PaddingProfile"
  rand_Reader :: "draw stream"
  log_output :: "(string \<times> log_arg list) list"

definition log_Printf :: "string \<Rightarrow> log_arg list \<Rightarrow> world \<Rightarrow> world" where
  "log_Printf fmt args s = s\<lparr>log_output := log_output s @ [(fmt, args)]\<rparr>"

section \<open>The length sampler\<close>

text \<open>
  \<open>crypto/rand.Int\<close> is a library function. Its contract: it panics when \<open>n \<le> 0\<close>;
  otherwise it reads the random source and returns either the reader's error or a value
  \<open>v\<close> with \<open>0 \<le> v < n\<close>. The drawn number \<open>r\<close> is reduced into that range, so that
  every value of the range is the result for some \<open>r\<close>.
\<close>

definition rand_Int :: "int \<Rightarrow> world \<Rightarrow> (error + int) outcome \<times> world" where
  "rand_Int n s =
     (if n \<le> 0 then (Fails (panic ''crypto/rand: argument to Int is <= 0''), s)
      else
        (case shd (rand_Reader s) of
           failed err \<Rightarrow> (Returns (Inl err), s\<lparr>rand_Reader := stl (rand_Reader s)\<rparr>)
         | drawn r \<Rightarrow>
             (Returns (Inr (int r mod n)), s\<lparr>rand_Reader := stl (rand_Reader s)\<rparr>)))"

text \<open>
  \<open>randInt(min, max)\<close>. The span \<open>max - min + 1\<close> is computed in \<open>int\<close> and wraps;
  \<open>big.NewInt(int64(...))\<close> reads it as a signed number, \<open>int(val.Int64()) + min\<close>
  converts the drawn value back and adds \<open>min\<close>, wrapping again.
\<close>

definition randInt :: "go_int \<Rightarrow> go_int \<Rightarrow> world \<Rightarrow> (error + go_int) outcome \<times> world" where
  "randInt minv maxv s =
     (if maxv <s minv then
        (Returns (Inl (errors_New ''min cannot be greater than max'')), s)
      else if minv = maxv then (Returns (Inr minv), s)
      else
        (case rand_Int (sint (maxv - minv + 1)) s of
           (Fails f, s') \<Rightarrow> (Fails f, s')
         | (Returns (Inl err), s') \<Rightarrow> (Returns (Inl err), s')
         | (Returns (Inr val), s') \<Rightarrow> (Returns (Inr (word_of_int val + minv)), s')))"

section \<open>The pool\<close>

text \<open>
  \<open>init\<close> allocates the pool (\<open>make\<close> zeroes it) and fills it byte by byte; the loop
  counter runs from 0 to \<open>maxPaddingSize\<close> and cannot overflow. An error of the random
  source is a panic, as is an index outside \<open>paddingCharset\<close>.
\<close>

function init_loop :: "nat \<Rightarrow> world \<Rightarrow> unit outcome \<times> world" where
  "init_loop i s =
     (if i < unat maxPaddingSize then
        (case rand_Int (int (length paddingCharset)) s of
           (Fails f, s') \<Rightarrow> (Fails f, s')
         | (Returns (Inl (Error msg)), s') \<Rightarrow>
             (Fails (panic (''toukaPadding: failed to initialize precomputed padding data: '' @ msg)), s')
         | (Returns (Inr randIndex), s') \<Rightarrow>
             if nat randIndex < length paddingCharset then
               init_loop (i + 1)
                 (s'\<lparr>precomputedPaddingData :=
                       (precomputedPaddingData s')[i := paddingCharset ! nat randIndex]\<rparr>)
             else (Fails (panic ''runtime error: index out of range''), s'))
      else (Returns (), s))"
  by pat_completeness auto
termination
  by (relation "measure (\<lambda>(i, s). unat maxPaddingSize - i)") auto

definition init :: "world \<Rightarrow> unit outcome \<times> world" where
  "init s =
     init_loop 0 (s\<lparr>precomputedPaddingData := replicate (unat maxPaddingSize) (CHR 0x00)\<rparr>)"

text \<open>
  A slice expression \<open>a[lo:hi]\<close> on a slice whose capacity is its length: a panic unless
  \<open>0 \<le> lo \<le> hi \<le> len(a)\<close>, the bytes from \<open>lo\<close> up to \<open>hi\<close> otherwise.
\<close>

definition slice_expr :: "string \<Rightarrow> go_int \<Rightarrow> go_int \<Rightarrow> string outcome" where
  "slice_expr a lo hi =
     (if 0 \<le>s lo \<and> lo \<le>s hi \<and> sint hi \<le> int (length a) then
        Returns (take (nat (sint hi) - nat (sint lo)) (drop (nat (sint lo)) a))
      else Fails (panic ''runtime error: slice bounds out of range''))"

definition getPaddingSlice :: "go_int \<Rightarrow> world \<Rightarrow> string outcome \<times> world" where
  "getPaddingSlice length0 s =
     (if length0 \<le>s 0 then (Returns [], s)
      else
        let len = (if maxPaddingSize <s length0 then maxPaddingSize else length0);
            maxStart = maxPaddingSize - len
        in
          (case randInt 0 maxStart s of
             (Fails f, s') \<Rightarrow> (Fails f, s')
           | (Returns r, s') \<Rightarrow>
               let start = (case r of Inl err \<Rightarrow> 0 | Inr v \<Rightarrow> v)
               in (slice_expr (precomputedPaddingData s') start (start + len), s')))"

section \<open>Installation: defaults and validation\<close>

definition store_MinLength :: "addr \<Rightarrow> go_int \<Rightarrow> world \<Rightarrow> world" where
  "store_MinLength p v s = s\<lparr>profiles := (profiles s)(p := (profiles s p)\<lparr>MinLength := v\<rparr>)\<rparr>"

definition store_MaxLength :: "addr \<Rightarrow> go_int \<Rightarrow> world \<Rightarrow> world" where
  "store_MaxLength p v s = s\<lparr>profiles := (profiles s)(p := (profiles s p)\<lparr>MaxLength := v\<rparr>)\<rparr>"

text \<open>
  \<open>ToukaPadding\<close> (both of its versions) and \<open>ToukaPaddingS\<close> start with the same
  statements, which differ only in the prefix of the two warnings. \<open>opts\<close> is the
  function's own copy of the options; \<open>opts.Profile\<close> is a pointer, so the assignments
  to \<open>opts.Profile.MinLength\<close> and \<open>opts.Profile.MaxLength\<close> go to the store. The
  result is the copy the returned closure keeps, and the state.
\<close>

definition validate :: "string \<Rightarrow> PaddingOptions \<Rightarrow> world \<Rightarrow> PaddingOptions \<times> world" where
  "validate prefix opts0 s0 =
     (let opts1 = (if HeaderName opts0 = [] then opts0\<lparr>HeaderName := ''T-Padding''\<rparr> else opts0);
          p = (case Profile opts1 of None \<Rightarrow> Addr_ProfileDefault | Some a \<Rightarrow> a);
          opts2 = opts1\<lparr>Profile := Some p\<rparr>;
          s1 = (if maxPaddingSize <s MaxLength (profiles s0 p) then
                  store_MaxLength p maxPaddingSize
                    (log_Printf
                       (prefix @ '': Warning - Profile.MaxLength (%d) exceeds maxPaddingSize (%d). It will be capped.'')
                       [Int_arg (MaxLength (profiles s0 p)), Int_arg maxPaddingSize] s0)
                else s0);
          s2 = (if MinLength (profiles s1 p) <s 0 then store_MinLength p 0 s1 else s1);
          s3 = (if MaxLength (profiles s2 p) <s MinLength (profiles s2 p) then
                  store_MinLength p (MaxLength (profiles s2 p))
                    (log_Printf
                       (prefix @ '': Warning - Profile.MinLength (%d) is greater than MaxLength (%d). Adjusting to be equal.'')
                       [Int_arg (MinLength (profiles s2 p)), Int_arg (MaxLength (profiles s2 p))] s2)
                else s2)
      in (opts2, s3))"

definition ToukaPadding :: "PaddingOptions \<Rightarrow> world \<Rightarrow> PaddingOptions \<times> world" where
  "ToukaPadding opts s = validate ''httpc.ToukaPadding'' opts s"

definition ToukaPaddingS :: "PaddingOptions \<Rightarrow> world \<Rightarrow> PaddingOptions \<times> world" where
  "ToukaPaddingS opts s = validate ''toukaPadding'' opts s"

section \<open>The outbound middleware\<close>

text \<open>
  \<open>http.Header\<close> is a map from canonical header names to lists of values, and a nil map
  is \<open>None\<close>. \<open>Header.Set\<close> is a library function: it stores the one value under the
  canonical form of the key. The canonical form (\<open>textproto.CanonicalMIMEHeaderKey\<close>) is
  not part of the package and is a parameter.
\<close>

type_synonym Header = "string \<rightharpoonup> string list"

definition Header_Set :: "(string \<Rightarrow> string) \<Rightarrow> string \<Rightarrow> string \<Rightarrow> Header \<Rightarrow> Header" where
  "Header_Set canon key v h = h(canon key \<mapsto> [v])"

record Request =
  Header :: "Header option"

text \<open>
  What the closure returned by \<open>ToukaPadding\<close> does to the request before it calls the
  next stage; the round-tripper version and the handler version have the same statements.
  Reading \<open>opts.Profile.MinLength\<close> is a read through the pointer at the time of the
  request.
\<close>

definition pad_request ::
  "(string \<Rightarrow> string) \<Rightarrow> PaddingOptions \<Rightarrow> 'z Request_scheme \<Rightarrow> world
     \<Rightarrow> 'z Request_scheme outcome \<times> world" where
  "pad_request canon opts req s =
     (case Profile opts of
        None \<Rightarrow> (Fails (panic ''runtime error: invalid memory address or nil pointer dereference''), s)
      | Some p \<Rightarrow>
          (case randInt (MinLength (profiles s p)) (MaxLength (profiles s p)) s of
             (Fails f, s') \<Rightarrow> (Fails f, s')
           | (Returns (Inl err), s') \<Rightarrow>
               (Returns req,
                log_Printf ''httpc.ToukaPadding: failed to generate random padding length: %v''
                  [Err_arg err] s')
           | (Returns (Inr paddingLen), s') \<Rightarrow>
               if 0 <s paddingLen then
                 (case getPaddingSlice paddingLen s' of
                    (Fails f, s'') \<Rightarrow> (Fails f, s'')
                  | (Returns paddingData, s'') \<Rightarrow>
                      let h = (case Header req of None \<Rightarrow> Map.empty | Some h \<Rightarrow> h)
                      in (Returns (req\<lparr>Header := Some (Header_Set canon (HeaderName opts) paddingData h)\<rparr>),
                          s''))
               else (Returns req, s')))"

text \<open>
  The round tripper of \<open>padding.go\<close>: \<open>next\<close> is \<open>next.RoundTrip\<close>, whose result
  (response and error) the closure returns as it is.
\<close>

definition ToukaPadding_RoundTrip ::
  "(string \<Rightarrow> string) \<Rightarrow> PaddingOptions \<Rightarrow> ('z Request_scheme \<Rightarrow> world \<Rightarrow> 'r outcome \<times> world)
     \<Rightarrow> 'z Request_scheme \<Rightarrow> world \<Rightarrow> 'r outcome \<times> world" where
  "ToukaPadding_RoundTrip canon opts next req s =
     (case pad_request canon opts req s of
        (Fails f, s') \<Rightarrow> (Fails f, s')
      | (Returns req', s') \<Rightarrow> next req' s')"

text \<open>
  The handler of the second version: \<open>next\<close> is \<open>next.ServeHTTP\<close>, which also gets the
  response writer \<open>w\<close>, untouched.
\<close>

definition ToukaPadding_ServeHTTP ::
  "(string \<Rightarrow> string) \<Rightarrow> PaddingOptions \<Rightarrow> ('w \<Rightarrow> 'z Request_scheme \<Rightarrow> world \<Rightarrow> 'r outcome \<times> world)
     \<Rightarrow> 'w \<Rightarrow> 'z Request_scheme \<Rightarrow> world \<Rightarrow> 'r outcome \<times> world" where
  "ToukaPadding_ServeHTTP canon opts next w r s =
     (case pad_request canon opts r s of
        (Fails f, s') \<Rightarrow> (Fails f, s')
      | (Returns r', s') \<Rightarrow> next w r' s')"

section \<open>The response writer\<close>

text \<open>
  \<open>touka.ResponseWriter\<close> is an interface of another package. The wrapped writer is
  known by the calls it has received, oldest first, and by what its \<open>Write\<close> answers.
\<close>

datatype rw_call =
    Header_Set_call string string
  | WriteHeader_call go_int
  | Write_call string

record touka_ResponseWriter =
  calls :: "rw_call list"
  Write_result :: "rw_call list \<Rightarrow> string \<Rightarrow> go_int \<times> error option"

record paddingResponseWriter =
  ResponseWriter :: touka_ResponseWriter
  opts :: PaddingOptions
  wroteHeader :: bool
  mu :: bool

definition call :: "rw_call \<Rightarrow> paddingResponseWriter \<Rightarrow> paddingResponseWriter" where
  "call c prw =
     prw\<lparr>ResponseWriter := (ResponseWriter prw)\<lparr>calls := calls (ResponseWriter prw) @ [c]\<rparr>\<rparr>"

text \<open>
  The mutex is held (\<open>True\<close>) or free. Within one goroutine, locking a mutex that is held
  never returns, and unlocking a free one is a fatal error.
\<close>

definition mu_Lock :: "paddingResponseWriter \<Rightarrow> paddingResponseWriter outcome" where
  "mu_Lock prw = (if mu prw then Fails deadlock else Returns (prw\<lparr>mu := True\<rparr>))"

definition mu_Unlock :: "paddingResponseWriter \<Rightarrow> paddingResponseWriter outcome" where
  "mu_Unlock prw =
     (if mu prw then Returns (prw\<lparr>mu := False\<rparr>)
      else Fails (fatal ''sync: unlock of unlocked mutex''))"

definition WriteHeader ::
  "go_int \<Rightarrow> paddingResponseWriter \<Rightarrow> world \<Rightarrow> unit outcome \<times> paddingResponseWriter \<times> world" where
  "WriteHeader statusCode prw s =
     (case mu_Lock prw of
        Fails f \<Rightarrow> (Fails f, prw, s)
      | Returns prw1 \<Rightarrow>
          if wroteHeader prw1 then
            (case mu_Unlock prw1 of
               Fails f \<Rightarrow> (Fails f, prw1, s)
             | Returns prw2 \<Rightarrow> (Returns (), prw2, s))
          else
            (case mu_Unlock (prw1\<lparr>wroteHeader := True\<rparr>) of
               Fails f \<Rightarrow> (Fails f, prw1\<lparr>wroteHeader := True\<rparr>, s)
             | Returns prw2 \<Rightarrow>
                 (case Profile (opts prw2) of
                    None \<Rightarrow>
                      (Fails (panic ''runtime error: invalid memory address or nil pointer dereference''),
                       prw2, s)
                  | Some p \<Rightarrow>
                      (case randInt (MinLength (profiles s p)) (MaxLength (profiles s p)) s of
                         (Fails f, s') \<Rightarrow> (Fails f, prw2, s')
                       | (Returns (Inl err), s') \<Rightarrow>
                           (Returns (), call (WriteHeader_call statusCode) prw2,
                            log_Printf ''toukaPadding: failed to generate random padding length: %v''
                              [Err_arg err] s')
                       | (Returns (Inr paddingLen), s') \<Rightarrow>
                           if 0 <s paddingLen then
                             (case getPaddingSlice paddingLen s' of
                                (Fails f, s'') \<Rightarrow> (Fails f, prw2, s'')
                              | (Returns paddingData, s'') \<Rightarrow>
                                  (Returns (),
                                   call (WriteHeader_call statusCode)
                                     (call (Header_Set_call (HeaderName (opts prw2)) paddingData) prw2),
                                   s''))
                           else (Returns (), call (WriteHeader_call statusCode) prw2, s')))))"

definition StatusOK :: go_int where
  "StatusOK = 200"

definition Write ::
  "string \<Rightarrow> paddingResponseWriter \<Rightarrow> world
     \<Rightarrow> (go_int \<times> error option) outcome \<times> paddingResponseWriter \<times> world" where
  "Write data prw s =
     (let delegate = (\<lambda>prw' s'.
            (Returns (Write_result (ResponseWriter prw') (calls (ResponseWriter prw')) data),
             call (Write_call data) prw', s'))
      in
        if \<not> wroteHeader prw then
          (case mu_Lock prw of
             Fails f \<Rightarrow> (Fails f, prw, s)
           | Returns prw1 \<Rightarrow>
               if \<not> wroteHeader prw1 then
                 (case mu_Unlock prw1 of
                    Fails f \<Rightarrow> (Fails f, prw1, s)
                  | Returns prw2 \<Rightarrow>
                      (case WriteHeader StatusOK prw2 s of
                         (Fails f, prw3, s') \<Rightarrow> (Fails f, prw3, s')
                       | (Returns u, prw3, s') \<Rightarrow> delegate prw3 s'))
               else
                 (case mu_Unlock prw1 of
                    Fails f \<Rightarrow> (Fails f, prw1, s)
                  | Returns prw2 \<Rightarrow> delegate prw2 s))
        else delegate prw s)"

text \<open>
  The handler returned by \<open>ToukaPaddingS\<close> wraps the writer of the request's context in
  a new \<open>paddingResponseWriter\<close> (flag unset, mutex free) that points to the validated
  options.
\<close>

definition ToukaPaddingS_handler :: "PaddingOptions \<Rightarrow> touka_ResponseWriter \<Rightarrow> paddingResponseWriter" where
  "ToukaPaddingS_handler opts' originalWriter =
     \<lparr>ResponseWriter = originalWriter, opts = opts', wroteHeader = False, mu = False\<rparr>"

section \<open>Concrete states\<close>

text \<open>
  The state in which request handling starts: the pool as \<open>init\<close> leaves it, the three
  presets at their initial values, every other profile object zeroed, nothing logged, and
  a given random source.
\<close>

definition initial_world :: "draw stream \<Rightarrow> world" where
  "initial_world rs =
     \<lparr>precomputedPaddingData = replicate 4096 (CHR ''X''),
      profiles = (\<lambda>a. case a of
                    Addr_ProfileDefault \<Rightarrow> ProfileDefault
                  | Addr_ProfileShort \<Rightarrow> ProfileShort
                  | Addr_ProfileLong \<Rightarrow> ProfileLong
                  | Obj n \<Rightarrow> \<lparr>MinLength = 0, MaxLength = 0\<rparr>),
      rand_Reader = rs,
      log_output = []\<rparr>"

definition recording_writer :: touka_ResponseWriter where
  "recording_writer = \<lparr>calls = [], Write_result = (\<lambda>cs data. (word_of_nat (length data), None))\<rparr>"

text \<open>A caller's own profile object, \<open>&PaddingProfile{...}\<close>, at address \<open>a\<close>.\<close>

definition new_PaddingProfile :: "addr \<Rightarrow> PaddingProfile \<Rightarrow> world \<Rightarrow> world" where
  "new_PaddingProfile a v s = s\<lparr>profiles := (profiles s)(a := v)\<rparr>"

section \<open>What validation establishes\<close>

text \<open>
  The bounds a profile has once the validation statements have run on it: ordered, capped
  by the size of the pool, and equal to each other when the minimum is negative.
\<close>

definition validated :: "PaddingProfile \<Rightarrow> bool" where
  "validated pr \<longleftrightarrow>
     MinLength pr \<le>s MaxLength pr \<and> MaxLength pr \<le>s maxPaddingSize
     \<and> (MinLength pr <s 0 \<longrightarrow> MinLength pr = MaxLength pr)"

section \<open>Arithmetic of \<open>go_int\<close>\<close>

lemma mod_once:
  fixes x m :: int
  assumes "m \<le> x" and "x < 2 * m"
  shows "x mod m = x - m"
proof -
  have "x mod m = ((x - m) + m) mod m"
    by simp
  also have "\<dots> = (x - m) mod m"
    by (simp only: mod_add_self2)
  also have "\<dots> = x - m"
    using assms by (intro mod_pos_pos_trivial) simp_all
  finally show ?thesis .
qed

lemma sint_bounds:
  fixes a :: go_int
  shows "- (2 ^ 63) \<le> sint a" and "sint a < 2 ^ 63"
  using sint_ge [of a] sint_lt [of a] by simp_all

lemma sint_of_int_small:
  assumes "- (2 ^ 63) \<le> k" and "k < 2 ^ 63"
  shows "sint (word_of_int k :: go_int) = k"
proof -
  have "sint (word_of_int k :: go_int) = signed_take_bit 63 k"
    by (simp only: sint_sbintrunc') simp
  also have "\<dots> = k"
    using assms by (intro signed_take_bit_int_eq_self) simp_all
  finally show ?thesis .
qed

lemma sint_plus:
  fixes a b :: go_int
  assumes "- (2 ^ 63) \<le> sint a + sint b" and "sint a + sint b < 2 ^ 63"
  shows "sint (a + b) = sint a + sint b"
proof -
  have "a + b = word_of_int (sint a + sint b)"
    by simp
  then show ?thesis
    using sint_of_int_small [OF assms] by simp
qed

lemma sint_minus:
  fixes a b :: go_int
  assumes "- (2 ^ 63) \<le> sint a - sint b" and "sint a - sint b < 2 ^ 63"
  shows "sint (a - b) = sint a - sint b"
proof -
  have "a - b = word_of_int (sint a - sint b)"
    by simp
  then show ?thesis
    using sint_of_int_small [OF assms] by simp
qed

lemma sint_maxPaddingSize: "sint maxPaddingSize = 4096"
  by (simp add: maxPaddingSize_def)

lemma unat_maxPaddingSize: "unat maxPaddingSize = 4096"
  by (simp add: maxPaddingSize_def)


lemma sint_span:
  fixes a b :: go_int
  assumes "sint a \<le> sint b" and "0 < sint (b - a + 1)"
  shows "sint (b - a + 1) = sint b - sint a + 1"
proof -
  define d where "d = sint b - sint a + 1"
  have "b - a + 1 = (word_of_int d :: go_int)"
    by (simp add: d_def)
  then have e: "sint (b - a + 1) = signed_take_bit 63 d"
    by (simp only: sint_sbintrunc') simp
  have f: "signed_take_bit 63 d = (d + 2 ^ 63) mod 2 ^ 64 - 2 ^ 63"
    by (simp add: signed_take_bit_eq_take_bit_shift take_bit_eq_mod)
  have dr: "1 \<le> d" "d \<le> 2 ^ 64"
    using sint_bounds [of a] sint_bounds [of b] assms(1) by (simp_all add: d_def)
  show ?thesis
  proof (cases "d < 2 ^ 63")
    case True
    then have "(d + 2 ^ 63) mod 2 ^ 64 = d + 2 ^ 63"
      using dr by (intro mod_pos_pos_trivial) simp_all
    with e f show ?thesis by (simp add: d_def)
  next
    case False
    have "(d + 2 ^ 63) mod 2 ^ 64 = d + 2 ^ 63 - 2 ^ 64"
      using dr False by (intro mod_once) simp_all
    with e f assms(2) dr show ?thesis by simp
  qed
qed

section \<open>Properties of the length sampler\<close>

text \<open>What \<open>rand_Int\<close> and \<open>randInt\<close> leave untouched.\<close>

lemma rand_Int_frame:
  assumes "rand_Int n s = (r, s')"
  shows "precomputedPaddingData s' = precomputedPaddingData s"
    and "profiles s' = profiles s"
    and "log_output s' = log_output s"
  using assms by (auto simp: rand_Int_def split: if_splits draw.splits)

lemma randInt_frame:
  assumes "randInt lo hi s = (r, s')"
  shows "precomputedPaddingData s' = precomputedPaddingData s"
    and "profiles s' = profiles s"
    and "log_output s' = log_output s"
  using assms
  by (auto simp: randInt_def split: if_splits prod.splits outcome.splits sum.splits
      dest: rand_Int_frame)

text \<open>A value that \<open>randInt\<close> returns lies between the bounds.\<close>

lemma randInt_value:
  assumes le: "minv \<le>s maxv" and r: "randInt minv maxv s = (Returns (Inr v), s')"
  shows "sint minv \<le> sint v" and "sint v \<le> sint maxv"
proof -
  have "sint minv \<le> sint v \<and> sint v \<le> sint maxv"
  proof (cases "minv = maxv")
    case True
    with r show ?thesis by (simp add: randInt_def)
  next
    case False
    define n where "n = sint (maxv - minv + 1)"
    from le have sle: "sint minv \<le> sint maxv"
      by (simp add: word_sle_eq)
    from le have ns: "\<not> maxv <s minv"
      by (simp add: word_sle_eq word_sless_alt)
    from r False ns obtain val where
      ri: "rand_Int n s = (Returns (Inr val), s')" and v: "v = word_of_int val + minv"
      by (auto simp: randInt_def n_def split: prod.splits outcome.splits sum.splits)
    from ri have npos: "0 < n" and vr: "0 \<le> val" "val < n"
      by (auto simp: rand_Int_def split: if_splits draw.splits)
    from npos sle have n: "n = sint maxv - sint minv + 1"
      unfolding n_def by (intro sint_span) simp_all
    have "sint (word_of_int (sint minv + val) :: go_int) = sint minv + val"
      using vr n sint_bounds [of minv] sint_bounds [of maxv]
      by (intro sint_of_int_small) simp_all
    then have "sint v = sint minv + val"
      by (simp add: v add.commute)
    with vr n show ?thesis
      by simp
  qed
  then show "sint minv \<le> sint v" and "sint v \<le> sint maxv"
    by simp_all
qed

text \<open>
  With bounds that are not further apart than \<open>2^63 - 2\<close>, \<open>randInt\<close> does not panic: it
  returns a value or the error of the random source.
\<close>

lemma randInt_returns:
  assumes "minv \<le>s maxv" and "sint maxv - sint minv < 2 ^ 63 - 1"
  shows "\<exists>r s'. randInt minv maxv s = (Returns r, s')"
proof (cases "minv = maxv")
  case True
  then show ?thesis by (simp add: randInt_def)
next
  case False
  from assms(1) have sle: "sint minv \<le> sint maxv" and ns: "\<not> maxv <s minv"
    by (simp_all add: word_sle_eq word_sless_alt)
  have "sint (maxv - minv) = sint maxv - sint minv"
    using sle assms(2) by (intro sint_minus) simp_all
  then have "sint (maxv - minv + 1) = sint maxv - sint minv + 1"
    using sle assms(2) sint_plus [of "maxv - minv" 1] by simp
  with sle have "0 < sint (maxv - minv + 1)"
    by simp
  with False ns show ?thesis
    by (simp add: randInt_def rand_Int_def split: draw.splits)
qed

text \<open>
  Claim C3. For bounds with \<open>min \<le> max\<close>, a value that \<open>randInt(min, max)\<close> returns
  lies in the closed interval from \<open>min\<close> to \<open>max\<close>. When the bounds are equal the
  function returns that bound in every state, whatever the random source would answer,
  and leaves the state (the random source included) as it was.
\<close>

theorem randInt_in_range:
  "(minv \<le>s maxv \<longrightarrow> randInt minv maxv s = (Returns (Inr v), s') \<longrightarrow> minv \<le>s v \<and> v \<le>s maxv)
   \<and> randInt m m t = (Returns (Inr m), t)"
proof (rule conjI)
  show "randInt m m t = (Returns (Inr m), t)"
    by (simp add: randInt_def)
next
  show "minv \<le>s maxv \<longrightarrow> randInt minv maxv s = (Returns (Inr v), s') \<longrightarrow> minv \<le>s v \<and> v \<le>s maxv"
    using randInt_value [of minv maxv s v s'] by (simp add: word_sle_eq)
qed

theorem randInt_in_range_witness:
  "(3 :: go_int) \<le>s 7
   \<and> randInt 3 7 (initial_world (drawn 9 ## sconst (failed (Error ''EOF''))))
       = (Returns (Inr 7), initial_world (sconst (failed (Error ''EOF''))))
   \<and> (3 :: go_int) \<le>s 7 \<and> (7 :: go_int) \<le>s 7
   \<and> randInt 5 5 (initial_world (sconst (failed (Error ''EOF''))))
       = (Returns (Inr 5), initial_world (sconst (failed (Error ''EOF''))))"
proof -
  have h: "(3 :: go_int) \<le>s 7"
    by (simp add: word_sle_eq)
  have r: "randInt 3 7 (initial_world (drawn 9 ## sconst (failed (Error ''EOF''))))
       = (Returns (Inr 7), initial_world (sconst (failed (Error ''EOF''))))"
    by (simp add: randInt_def rand_Int_def initial_world_def word_sless_alt)
  show ?thesis
    using h r
      randInt_in_range [of 3 7 "initial_world (drawn 9 ## sconst (failed (Error ''EOF'')))" 7
        "initial_world (sconst (failed (Error ''EOF'')))" 5
        "initial_world (sconst (failed (Error ''EOF'')))"]
    by simp
qed

text \<open>
  Claim C4. Whenever \<open>min > max\<close>, \<open>randInt(min, max)\<close> returns the error built by
  \<open>errors.New("min cannot be greater than max")\<close> and no sampled value; the random
  source and the rest of the state are left as they were, and the bounds are not swapped.
\<close>

theorem randInt_min_gt_max:
  "maxv <s minv \<Longrightarrow>
     randInt minv maxv s = (Returns (Inl (errors_New ''min cannot be greater than max'')), s)"
  by (simp add: randInt_def)

theorem randInt_min_gt_max_witness:
  "(3 :: go_int) <s 7 \<and>
   randInt 7 3 (initial_world (sconst (drawn 5)))
     = (Returns (Inl (errors_New ''min cannot be greater than max'')),
        initial_world (sconst (drawn 5)))"
proof -
  have h: "(3 :: go_int) <s 7"
    by (simp add: word_sless_alt)
  show ?thesis
    using h randInt_min_gt_max [OF h] by simp
qed

section \<open>Properties of \<open>init\<close>\<close>

text \<open>One round of the loop of \<open>init\<close>.\<close>

lemma init_loop_step:
  assumes "i < 4096"
  shows "init_loop i s =
     (case shd (rand_Reader s) of
        failed (Error msg) \<Rightarrow>
          (Fails (panic (''toukaPadding: failed to initialize precomputed padding data: '' @ msg)),
           s\<lparr>rand_Reader := stl (rand_Reader s)\<rparr>)
      | drawn r \<Rightarrow>
          init_loop (i + 1)
            (s\<lparr>rand_Reader := stl (rand_Reader s),
               precomputedPaddingData := (precomputedPaddingData s)[i := CHR ''X'']\<rparr>))"
  using assms
  by (subst init_loop.simps)
    (simp add: unat_maxPaddingSize rand_Int_def paddingCharset_def
      split: draw.splits error.splits)

lemma init_loop_pool:
  assumes "init_loop i s = (Returns u, s')" and "i \<le> 4096"
    and "length (precomputedPaddingData s) = 4096"
  shows "length (precomputedPaddingData s') = 4096
       \<and> (\<forall>j<4096. precomputedPaddingData s' ! j
                      = (if j < i then precomputedPaddingData s ! j else CHR ''X''))"
  using assms
proof (induction "4096 - i" arbitrary: i s)
  case 0
  then have "i = 4096"
    by simp
  with "0.prems" show ?case
    by (subst (asm) init_loop.simps) (simp add: unat_maxPaddingSize)
next
  case (Suc k)
  then have lt: "i < 4096"
    by simp
  from Suc.prems(1) obtain r where
    d: "shd (rand_Reader s) = drawn r"
    and rec: "init_loop (i + 1)
            (s\<lparr>rand_Reader := stl (rand_Reader s),
               precomputedPaddingData := (precomputedPaddingData s)[i := CHR ''X'']\<rparr>)
          = (Returns u, s')"
    unfolding init_loop_step [OF lt]
    by (auto split: draw.splits error.splits)
  have "k = 4096 - (i + 1)"
    using Suc.hyps(2) by simp
  from Suc.hyps(1) [OF this rec] lt Suc.prems(3)
  have "length (precomputedPaddingData s') = 4096"
    and "\<forall>j<4096. precomputedPaddingData s' ! j
                      = (if j < i + 1 then (precomputedPaddingData s)[i := CHR ''X''] ! j else CHR ''X'')"
    by simp_all
  with Suc.prems(3) show ?case
    by (auto simp: nth_list_update)
qed

text \<open>
  When \<open>init\<close> returns, the pool has \<open>maxPaddingSize\<close> bytes, each of them the one
  character of \<open>paddingCharset\<close>.
\<close>

lemma init_pool:
  assumes "init s = (Returns u, s')"
  shows "precomputedPaddingData s' = replicate 4096 (CHR ''X'')"
proof -
  from assms init_loop_pool [of 0 _ u s']
  have "length (precomputedPaddingData s') = 4096"
    and "\<forall>j<4096. precomputedPaddingData s' ! j = CHR ''X''"
    by (simp_all add: init_def unat_maxPaddingSize)
  then show ?thesis
    by (simp add: list_eq_iff_nth_eq)
qed

section \<open>Properties of the pool\<close>

text \<open>The slice expression with bounds inside the slice.\<close>

lemma slice_expr_in_bounds:
  assumes "0 \<le> sint start" and "0 \<le> sint len" and "sint start + sint len \<le> int (length a)"
    and "int (length a) < 2 ^ 63"
  shows "slice_expr a start (start + len)
           = Returns (take (nat (sint len)) (drop (nat (sint start)) a))"
proof -
  have e: "sint (start + len) = sint start + sint len"
    using assms by (intro sint_plus) simp_all
  have "nat (sint start + sint len) - nat (sint start) = nat (sint len)"
    using assms(1,2) by simp
  with e assms show ?thesis
    by (simp add: slice_expr_def word_sle_eq)
qed

text \<open>
  \<open>getPaddingSlice\<close> for a positive length, in a state whose pool has \<open>maxPaddingSize\<close>
  bytes: it returns, the result is the clamped number of bytes of the pool from some
  offset that leaves room for them, and only the random source may have moved on.
\<close>

lemma getPaddingSlice_positive:
  assumes pool: "length (precomputedPaddingData s) = 4096" and pos: "0 <s n"
  defines "len \<equiv> (if maxPaddingSize <s n then maxPaddingSize else n)"
  shows "\<exists>start s'. getPaddingSlice n s
                     = (Returns (take (nat (sint len)) (drop start (precomputedPaddingData s))), s')
           \<and> start + nat (sint len) \<le> 4096
           \<and> precomputedPaddingData s' = precomputedPaddingData s
           \<and> profiles s' = profiles s \<and> log_output s' = log_output s"
proof -
  from pos have npos: "0 < sint n" and nle: "\<not> n \<le>s 0"
    by (simp_all add: word_sless_alt word_sle_eq)
  have lr: "0 < sint len" "sint len \<le> 4096"
    using npos by (auto simp: len_def word_sless_alt sint_maxPaddingSize)
  have ms: "sint (maxPaddingSize - len) = 4096 - sint len"
    using lr sint_minus [of maxPaddingSize len] by (simp add: sint_maxPaddingSize)
  have z: "(0 :: go_int) \<le>s maxPaddingSize - len"
    using lr ms by (simp add: word_sle_eq)
  have "sint (maxPaddingSize - len) - sint (0 :: go_int) < 2 ^ 63 - 1"
    using lr ms by simp
  from randInt_returns [OF z this, of s] obtain r s'
    where r: "randInt 0 (maxPaddingSize - len) s = (Returns r, s')"
    by blast
  define start :: go_int where "start = (case r of Inl err \<Rightarrow> 0 | Inr v \<Rightarrow> v)"
  have sr: "0 \<le> sint start" "sint start \<le> 4096 - sint len"
  proof -
    have "0 \<le> sint start \<and> sint start \<le> 4096 - sint len"
    proof (cases r)
      case (Inl e)
      with lr show ?thesis by (simp add: start_def)
    next
      case (Inr v)
      with r randInt_value [OF z, of s v s'] ms show ?thesis
        by (simp add: start_def)
    qed
    then show "0 \<le> sint start" "sint start \<le> 4096 - sint len"
      by simp_all
  qed
  have fr: "precomputedPaddingData s' = precomputedPaddingData s"
    "profiles s' = profiles s" "log_output s' = log_output s"
    using randInt_frame [OF r] by simp_all
  have "slice_expr (precomputedPaddingData s') start (start + len)
          = Returns (take (nat (sint len)) (drop (nat (sint start)) (precomputedPaddingData s')))"
    using sr lr pool fr by (intro slice_expr_in_bounds) simp_all
  with r nle have g: "getPaddingSlice n s
      = (Returns (take (nat (sint len)) (drop (nat (sint start)) (precomputedPaddingData s))), s')"
    by (simp add: getPaddingSlice_def Let_def len_def start_def fr)
  have "nat (sint start) + nat (sint len) \<le> 4096"
    using sr lr by simp
  then show ?thesis
    using g fr by blast
qed


lemma getPaddingSlice_clamped:
  assumes pool: "length (precomputedPaddingData s) = 4096" and big: "maxPaddingSize <s n"
  shows "getPaddingSlice n s = (Returns (precomputedPaddingData s), s)"
proof -
  from big have nle: "\<not> n \<le>s 0"
    by (simp add: word_sless_alt word_sle_eq sint_maxPaddingSize)
  have "slice_expr (precomputedPaddingData s) 0 (0 + maxPaddingSize)
          = Returns (take (nat (sint maxPaddingSize)) (drop (nat (sint (0 :: go_int))) (precomputedPaddingData s)))"
    using pool by (intro slice_expr_in_bounds) (simp_all add: sint_maxPaddingSize)
  with pool have "slice_expr (precomputedPaddingData s) 0 maxPaddingSize
          = Returns (precomputedPaddingData s)"
    by (simp add: sint_maxPaddingSize)
  with big nle show ?thesis
    by (simp add: getPaddingSlice_def randInt_def)
qed

lemma getPaddingSlice_fallback:
  assumes pool: "length (precomputedPaddingData s) = 4096" and pos: "0 <s n"
    and r: "randInt 0 (maxPaddingSize - (if maxPaddingSize <s n then maxPaddingSize else n)) s
              = (Returns (Inl e), s1)"
  shows "getPaddingSlice n s
           = (Returns (take (nat (sint (if maxPaddingSize <s n then maxPaddingSize else n)))
                         (precomputedPaddingData s)), s1)"
proof -
  define len where "len = (if maxPaddingSize <s n then maxPaddingSize else n)"
  from pos have npos: "0 < sint n" and nle: "\<not> n \<le>s 0"
    by (simp_all add: word_sless_alt word_sle_eq)
  have lr: "0 < sint len" "sint len \<le> 4096"
    using npos by (auto simp: len_def word_sless_alt sint_maxPaddingSize)
  have fr: "precomputedPaddingData s1 = precomputedPaddingData s"
    using randInt_frame(1) [OF r] .
  have "slice_expr (precomputedPaddingData s) 0 (0 + len)
          = Returns (take (nat (sint len)) (drop (nat (sint (0 :: go_int))) (precomputedPaddingData s)))"
    using pool lr by (intro slice_expr_in_bounds) simp_all
  then have "slice_expr (precomputedPaddingData s) 0 len
          = Returns (take (nat (sint len)) (precomputedPaddingData s))"
    by simp
  with r nle fr show ?thesis
    by (simp add: getPaddingSlice_def Let_def len_def)
qed

text \<open>
  Claim C5. In a state whose pool has \<open>maxPaddingSize\<close> (4096) bytes, as \<open>init\<close> leaves
  it: \<open>getPaddingSlice(length)\<close> returns the empty result and changes nothing when
  \<open>length \<le> 0\<close>; it returns the whole pool, 4096 bytes, when \<open>length > maxPaddingSize\<close>;
  and for \<open>0 < length \<le> maxPaddingSize\<close> it returns exactly \<open>length\<close> contiguous bytes of
  the pool that start at an offset between 0 and \<open>maxPaddingSize - length\<close>. The pool is
  the same afterwards in every case.
\<close>

theorem getPaddingSlice_result:
  assumes "length (precomputedPaddingData s) = 4096"
  shows "(n \<le>s 0 \<longrightarrow> getPaddingSlice n s = (Returns [], s))
       \<and> (maxPaddingSize <s n \<longrightarrow>
            getPaddingSlice n s = (Returns (precomputedPaddingData s), s)
            \<and> length (precomputedPaddingData s) = nat (sint maxPaddingSize))
       \<and> (0 <s n \<and> n \<le>s maxPaddingSize \<longrightarrow>
            (\<exists>start s'.
               getPaddingSlice n s
                 = (Returns (take (nat (sint n)) (drop start (precomputedPaddingData s))), s')
               \<and> int start \<le> sint maxPaddingSize - sint n
               \<and> length (take (nat (sint n)) (drop start (precomputedPaddingData s))) = nat (sint n)
               \<and> precomputedPaddingData s' = precomputedPaddingData s))"
proof (intro conjI impI)
  assume "n \<le>s 0"
  then show "getPaddingSlice n s = (Returns [], s)"
    by (simp add: getPaddingSlice_def)
next
  assume "maxPaddingSize <s n"
  then show "getPaddingSlice n s = (Returns (precomputedPaddingData s), s)"
    using assms by (rule getPaddingSlice_clamped [rotated])
next
  show "length (precomputedPaddingData s) = nat (sint maxPaddingSize)"
    using assms by (simp add: sint_maxPaddingSize)
next
  assume a: "0 <s n \<and> n \<le>s maxPaddingSize"
  then have len: "(if maxPaddingSize <s n then maxPaddingSize else n) = n"
    by (simp add: word_sless_alt word_sle_eq)
  from a have nr: "0 < sint n" "sint n \<le> 4096"
    by (simp_all add: word_sless_alt word_sle_eq sint_maxPaddingSize)
  from a getPaddingSlice_positive [OF assms, of n] len obtain start s'
    where g: "getPaddingSlice n s
                = (Returns (take (nat (sint n)) (drop start (precomputedPaddingData s))), s')"
      and st: "start + nat (sint n) \<le> 4096"
      and fr: "precomputedPaddingData s' = precomputedPaddingData s"
    by auto
  from st nr have "int start \<le> sint maxPaddingSize - sint n"
    by (simp add: sint_maxPaddingSize)
  moreover from st assms
  have "length (take (nat (sint n)) (drop start (precomputedPaddingData s))) = nat (sint n)"
    by simp
  ultimately show "\<exists>start s'.
       getPaddingSlice n s
         = (Returns (take (nat (sint n)) (drop start (precomputedPaddingData s))), s')
       \<and> int start \<le> sint maxPaddingSize - sint n
       \<and> length (take (nat (sint n)) (drop start (precomputedPaddingData s))) = nat (sint n)
       \<and> precomputedPaddingData s' = precomputedPaddingData s"
    using g fr by blast
qed

text \<open>
  Claim C10. In a state whose pool has 4096 bytes, \<open>getPaddingSlice\<close> returns for every
  length and every random source: it never panics. The result has the requested length,
  clamped to the interval from 0 to \<open>maxPaddingSize\<close>, and lies inside the pool. When
  sampling the offset fails, the result is that many bytes from offset 0.
\<close>

theorem getPaddingSlice_total:
  assumes "length (precomputedPaddingData s) = 4096"
  shows "(\<exists>bytes start s'.
            getPaddingSlice n s = (Returns bytes, s')
            \<and> length bytes = (if n \<le>s 0 then 0
                               else if maxPaddingSize <s n then nat (sint maxPaddingSize)
                               else nat (sint n))
            \<and> start + length bytes \<le> length (precomputedPaddingData s)
            \<and> bytes = take (length bytes) (drop start (precomputedPaddingData s)))
       \<and> (0 <s n \<longrightarrow>
            randInt 0 (maxPaddingSize - (if maxPaddingSize <s n then maxPaddingSize else n)) s
              = (Returns (Inl e), s1) \<longrightarrow>
            getPaddingSlice n s
              = (Returns (take (nat (sint (if maxPaddingSize <s n then maxPaddingSize else n)))
                            (drop 0 (precomputedPaddingData s))), s1))"
proof (intro conjI impI)
  show "\<exists>bytes start s'.
            getPaddingSlice n s = (Returns bytes, s')
            \<and> length bytes = (if n \<le>s 0 then 0
                               else if maxPaddingSize <s n then nat (sint maxPaddingSize)
                               else nat (sint n))
            \<and> start + length bytes \<le> length (precomputedPaddingData s)
            \<and> bytes = take (length bytes) (drop start (precomputedPaddingData s))"
  proof (cases "n \<le>s 0")
    case True
    then have "getPaddingSlice n s = (Returns [], s)"
      by (simp add: getPaddingSlice_def)
    with True show ?thesis
      by (intro exI [of _ "[]"] exI [of _ 0] exI [of _ s]) simp
  next
    case False
    then have pos: "0 <s n"
      by (simp add: word_sless_alt word_sle_eq)
    define len where "len = (if maxPaddingSize <s n then maxPaddingSize else n)"
    have lr: "0 < sint len" "sint len \<le> 4096"
      using pos by (auto simp: len_def word_sless_alt sint_maxPaddingSize)
    from getPaddingSlice_positive [OF assms pos] obtain start s'
      where g: "getPaddingSlice n s
                  = (Returns (take (nat (sint len)) (drop start (precomputedPaddingData s))), s')"
        and st: "start + nat (sint len) \<le> 4096"
      unfolding len_def by blast
    define bytes where "bytes = take (nat (sint len)) (drop start (precomputedPaddingData s))"
    from st assms have l: "length bytes = nat (sint len)"
      by (simp add: bytes_def)
    have "length bytes = (if n \<le>s 0 then 0
                               else if maxPaddingSize <s n then nat (sint maxPaddingSize)
                               else nat (sint n))"
      using False l by (simp add: len_def)
    moreover have "start + length bytes \<le> length (precomputedPaddingData s)"
      using st l assms by simp
    moreover have "bytes = take (length bytes) (drop start (precomputedPaddingData s))"
      using l by (simp add: bytes_def)
    ultimately show ?thesis
      using g unfolding bytes_def [symmetric] by blast
  qed
next
  assume "0 <s n"
    and "randInt 0 (maxPaddingSize - (if maxPaddingSize <s n then maxPaddingSize else n)) s
              = (Returns (Inl e), s1)"
  then show "getPaddingSlice n s
              = (Returns (take (nat (sint (if maxPaddingSize <s n then maxPaddingSize else n)))
                            (drop 0 (precomputedPaddingData s))), s1)"
    using getPaddingSlice_fallback [OF assms, of n e s1] by simp
qed


theorem getPaddingSlice_result_witness:
  "length (precomputedPaddingData (initial_world (drawn 5000 ## sconst (failed (Error ''EOF''))))) = 4096
   \<and> (- 3 :: go_int) \<le>s 0
   \<and> getPaddingSlice (- 3) (initial_world (drawn 5000 ## sconst (failed (Error ''EOF''))))
       = (Returns [], initial_world (drawn 5000 ## sconst (failed (Error ''EOF''))))
   \<and> maxPaddingSize <s 5000
   \<and> getPaddingSlice 5000 (initial_world (drawn 5000 ## sconst (failed (Error ''EOF''))))
       = (Returns (replicate 4096 (CHR ''X'')),
          initial_world (drawn 5000 ## sconst (failed (Error ''EOF''))))
   \<and> (0 :: go_int) <s 10 \<and> (10 :: go_int) \<le>s maxPaddingSize
   \<and> (\<exists>start s'.
         getPaddingSlice 10 (initial_world (drawn 5000 ## sconst (failed (Error ''EOF''))))
           = (Returns (take 10 (drop start (replicate 4096 (CHR ''X'')))), s')
         \<and> int start \<le> 4086
         \<and> length (take 10 (drop start (replicate 4096 (CHR ''X'')))) = 10
         \<and> precomputedPaddingData s' = replicate 4096 (CHR ''X''))"
proof -
  define w where "w = initial_world (drawn 5000 ## sconst (failed (Error ''EOF'')))"
  have p: "precomputedPaddingData w = replicate 4096 (CHR ''X'')"
    by (simp add: w_def initial_world_def)
  have h: "length (precomputedPaddingData w) = 4096"
    by (simp add: p)
  have c: "(- 3 :: go_int) \<le>s 0" "maxPaddingSize <s 5000" "(0 :: go_int) <s 10"
    "(10 :: go_int) \<le>s maxPaddingSize"
    by (simp_all add: word_sle_eq word_sless_alt sint_maxPaddingSize)
  have "sint (10 :: go_int) = 10" "sint maxPaddingSize = 4096"
    by (simp_all add: sint_maxPaddingSize)
  then show ?thesis
    using h c p getPaddingSlice_result [OF h, of "- 3"] getPaddingSlice_result [OF h, of 5000]
      getPaddingSlice_result [OF h, of 10]
    unfolding w_def [symmetric] by simp
qed

theorem getPaddingSlice_total_witness:
  "length (precomputedPaddingData (initial_world (sconst (failed (Error ''EOF''))))) = 4096
   \<and> (0 :: go_int) <s 10
   \<and> randInt 0 (maxPaddingSize - (if maxPaddingSize <s 10 then maxPaddingSize else 10))
        (initial_world (sconst (failed (Error ''EOF''))))
       = (Returns (Inl (Error ''EOF'')), initial_world (sconst (failed (Error ''EOF''))))
   \<and> getPaddingSlice 10 (initial_world (sconst (failed (Error ''EOF''))))
       = (Returns (replicate 10 (CHR ''X'')), initial_world (sconst (failed (Error ''EOF''))))"
proof -
  define w where "w = initial_world (sconst (failed (Error ''EOF'')))"
  have p: "precomputedPaddingData w = replicate 4096 (CHR ''X'')"
    by (simp add: w_def initial_world_def)
  have h: "length (precomputedPaddingData w) = 4096"
    by (simp add: p)
  have c: "(0 :: go_int) <s 10" "\<not> maxPaddingSize <s 10"
    by (simp_all add: word_sless_alt sint_maxPaddingSize)
  have r: "randInt 0 (maxPaddingSize - 10) w = (Returns (Inl (Error ''EOF'')), w)"
    by (simp add: randInt_def rand_Int_def w_def initial_world_def word_sless_alt
        maxPaddingSize_def)
  have "sint (10 :: go_int) = 10"
    by simp
  then show ?thesis
    using h c p r getPaddingSlice_total [OF h, of 10 "Error ''EOF''" w]
    unfolding w_def [symmetric] by simp
qed

section \<open>Properties of installation\<close>

text \<open>The result of the validation statements, field by field.\<close>

lemma validate_result:
  fixes cfg :: PaddingOptions and s :: world
  defines "p \<equiv> (case Profile cfg of None \<Rightarrow> Addr_ProfileDefault | Some a \<Rightarrow> a)"
  defines "mx \<equiv> (if maxPaddingSize <s MaxLength (profiles s p) then maxPaddingSize
                  else MaxLength (profiles s p))"
  defines "mn \<equiv> (if MinLength (profiles s p) <s 0 then 0 else MinLength (profiles s p))"
  shows "HeaderName (fst (validate prefix cfg s))
           = (if HeaderName cfg = [] then ''T-Padding'' else HeaderName cfg)"
    and "Profile (fst (validate prefix cfg s)) = Some p"
    and "profiles (snd (validate prefix cfg s))
           = (profiles s)(p := \<lparr>MinLength = (if mx <s mn then mx else mn), MaxLength = mx\<rparr>)"
    and "precomputedPaddingData (snd (validate prefix cfg s)) = precomputedPaddingData s"
    and "rand_Reader (snd (validate prefix cfg s)) = rand_Reader s"
proof -
  show "HeaderName (fst (validate prefix cfg s))
           = (if HeaderName cfg = [] then ''T-Padding'' else HeaderName cfg)"
    by (simp add: validate_def Let_def)
  show "Profile (fst (validate prefix cfg s)) = Some p"
    by (simp add: validate_def Let_def p_def)
  show "profiles (snd (validate prefix cfg s))
           = (profiles s)(p := \<lparr>MinLength = (if mx <s mn then mx else mn), MaxLength = mx\<rparr>)"
    unfolding mx_def mn_def p_def
    by (auto simp: validate_def Let_def store_MinLength_def store_MaxLength_def log_Printf_def
        fun_eq_iff)
  show "precomputedPaddingData (snd (validate prefix cfg s)) = precomputedPaddingData s"
    by (simp add: validate_def Let_def store_MinLength_def store_MaxLength_def log_Printf_def)
  show "rand_Reader (snd (validate prefix cfg s)) = rand_Reader s"
    by (simp add: validate_def Let_def store_MinLength_def store_MaxLength_def log_Printf_def)
qed


lemma validate_frame:
  assumes "q \<noteq> (case Profile cfg of None \<Rightarrow> Addr_ProfileDefault | Some a \<Rightarrow> a)"
  shows "profiles (snd (validate prefix cfg s)) q = profiles s q"
  using assms by (simp add: validate_result(3))

text \<open>The profile the options point to is in validated form afterwards.\<close>

lemma validate_validated:
  "validated (profiles (snd (validate prefix cfg s))
                (case Profile cfg of None \<Rightarrow> Addr_ProfileDefault | Some a \<Rightarrow> a))"
  by (simp add: validate_result(3) validated_def word_sle_eq word_sless_alt sint_maxPaddingSize)

text \<open>The validation statements leave a profile as it was exactly when it is in validated form.\<close>

lemma validate_unchanged_iff:
  fixes cfg :: PaddingOptions and s :: world
  defines "p \<equiv> (case Profile cfg of None \<Rightarrow> Addr_ProfileDefault | Some a \<Rightarrow> a)"
  shows "profiles (snd (validate prefix cfg s)) p = profiles s p \<longleftrightarrow> validated (profiles s p)"
proof
  assume "profiles (snd (validate prefix cfg s)) p = profiles s p"
  then show "validated (profiles s p)"
    using validate_validated [of prefix cfg s] by (simp add: p_def)
next
  assume v: "validated (profiles s p)"
  obtain mn mx where pr: "profiles s p = \<lparr>MinLength = mn, MaxLength = mx\<rparr>"
    by (cases "profiles s p") simp
  from v show "profiles (snd (validate prefix cfg s)) p = profiles s p"
    unfolding p_def validate_result(3)
    using pr [unfolded p_def]
    by (auto simp: validated_def word_sle_eq word_sless_alt sint_maxPaddingSize)
qed

lemma presets_validated:
  "validated ProfileDefault" "validated ProfileShort" "validated ProfileLong"
  by (simp_all add: validated_def ProfileDefault_def ProfileShort_def ProfileLong_def
      word_sle_eq word_sless_alt sint_maxPaddingSize)

lemma validate_unchanged:
  assumes "validated (profiles s (case Profile cfg of None \<Rightarrow> Addr_ProfileDefault | Some a \<Rightarrow> a))"
  shows "profiles (snd (validate prefix cfg s)) = profiles s"
proof
  fix q
  show "profiles (snd (validate prefix cfg s)) q = profiles s q"
    using assms validate_unchanged_iff [of prefix cfg s] validate_frame [of q cfg prefix s]
    by (cases "q = (case Profile cfg of None \<Rightarrow> Addr_ProfileDefault | Some a \<Rightarrow> a)") simp_all
qed

text \<open>
  Claim C6, at an input where the code breaks it. With \<open>MaxLength = -5\<close> and
  \<open>MinLength = 3\<close>, the floor at 0 leaves \<open>MinLength\<close> at 3, and the last adjustment then
  lowers it to the negative \<open>MaxLength\<close>: the effective profile of both installers is
  \<open>{-5, -5}\<close>, whose \<open>MinLength\<close> is below 0.
\<close>

theorem validate_negative_MaxLength:
  "profiles (snd (ToukaPaddingS \<lparr>HeaderName = ''X-Pad'', Profile = Some (Obj 0)\<rparr>
       (new_PaddingProfile (Obj 0) \<lparr>MinLength = 3, MaxLength = - 5\<rparr> (initial_world rs)))) (Obj 0)
     = \<lparr>MinLength = - 5, MaxLength = - 5\<rparr>
   \<and> profiles (snd (ToukaPadding \<lparr>HeaderName = ''X-Pad'', Profile = Some (Obj 0)\<rparr>
       (new_PaddingProfile (Obj 0) \<lparr>MinLength = 3, MaxLength = - 5\<rparr> (initial_world rs)))) (Obj 0)
     = \<lparr>MinLength = - 5, MaxLength = - 5\<rparr>
   \<and> (- 5 :: go_int) <s 0"
  by (simp add: ToukaPaddingS_def ToukaPadding_def validate_result(3) new_PaddingProfile_def
      word_sless_alt sint_maxPaddingSize)

text \<open>
  Claim C9, as stated, fails: the validation statements assign through the pointer
  \<open>opts.Profile\<close>. A caller's profile \<open>{-1, 5000}\<close> is \<open>{0, 4096}\<close> after installation.
\<close>

theorem install_modifies_profile_counterexample:
  "profiles (snd (ToukaPaddingS \<lparr>HeaderName = ''X-Pad'', Profile = Some (Obj 0)\<rparr>
       (new_PaddingProfile (Obj 0) \<lparr>MinLength = - 1, MaxLength = 5000\<rparr>
          (initial_world (sconst (drawn 0)))))) (Obj 0)
     = \<lparr>MinLength = 0, MaxLength = 4096\<rparr>
   \<and> profiles (new_PaddingProfile (Obj 0) \<lparr>MinLength = - 1, MaxLength = 5000\<rparr>
          (initial_world (sconst (drawn 0)))) (Obj 0)
     = \<lparr>MinLength = - 1, MaxLength = 5000\<rparr>
   \<and> \<lparr>MinLength = 0, MaxLength = 4096\<rparr> \<noteq> \<lparr>MinLength = - 1 :: go_int, MaxLength = 5000 :: go_int\<rparr>"
  by (simp add: ToukaPaddingS_def validate_result(3) new_PaddingProfile_def
      word_sless_alt sint_maxPaddingSize maxPaddingSize_def)

text \<open>
  Claim C9, amended. Installing with a caller-supplied profile modifies no profile object
  other than the one the caller passed in. That object has the same fields afterwards
  exactly when it already is in validated form (\<open>MinLength \<le> MaxLength \<le> maxPaddingSize\<close>,
  and \<open>MinLength \<ge> 0\<close> or \<open>MinLength = MaxLength\<close>); otherwise the adjusted bounds have been
  written into it. A preset that has its initial value is in validated form, so passing a
  pointer to it changes nothing.
\<close>

theorem install_profile_frame:
  assumes "Profile cfg = Some p"
  shows "(\<forall>q. q \<noteq> p \<longrightarrow>
            profiles (snd (ToukaPadding cfg s)) q = profiles s q
            \<and> profiles (snd (ToukaPaddingS cfg s)) q = profiles s q)
       \<and> (profiles (snd (ToukaPadding cfg s)) p = profiles s p \<longleftrightarrow> validated (profiles s p))
       \<and> (profiles (snd (ToukaPaddingS cfg s)) p = profiles s p \<longleftrightarrow> validated (profiles s p))
       \<and> (profiles s p = ProfileDefault \<or> profiles s p = ProfileShort \<or> profiles s p = ProfileLong
            \<longrightarrow> profiles (snd (ToukaPadding cfg s)) = profiles s
                \<and> profiles (snd (ToukaPaddingS cfg s)) = profiles s)"
proof -
  have p: "(case Profile cfg of None \<Rightarrow> Addr_ProfileDefault | Some a \<Rightarrow> a) = p"
    using assms by simp
  have a: "\<forall>q. q \<noteq> p \<longrightarrow>
            profiles (snd (ToukaPadding cfg s)) q = profiles s q
            \<and> profiles (snd (ToukaPaddingS cfg s)) q = profiles s q"
    using validate_frame [of _ cfg _ s] p by (simp add: ToukaPadding_def ToukaPaddingS_def)
  have b: "profiles (snd (ToukaPadding cfg s)) p = profiles s p \<longleftrightarrow> validated (profiles s p)"
    using validate_unchanged_iff [of "''httpc.ToukaPadding''" cfg s] p
    by (simp add: ToukaPadding_def)
  have c: "profiles (snd (ToukaPaddingS cfg s)) p = profiles s p \<longleftrightarrow> validated (profiles s p)"
    using validate_unchanged_iff [of "''toukaPadding''" cfg s] p
    by (simp add: ToukaPaddingS_def)
  have d: "profiles s p = ProfileDefault \<or> profiles s p = ProfileShort \<or> profiles s p = ProfileLong
            \<longrightarrow> profiles (snd (ToukaPadding cfg s)) = profiles s
                \<and> profiles (snd (ToukaPaddingS cfg s)) = profiles s"
  proof
    assume "profiles s p = ProfileDefault \<or> profiles s p = ProfileShort \<or> profiles s p = ProfileLong"
    then have "validated (profiles s p)"
      using presets_validated by auto
    then show "profiles (snd (ToukaPadding cfg s)) = profiles s
                \<and> profiles (snd (ToukaPaddingS cfg s)) = profiles s"
      using validate_unchanged [of s cfg] p by (simp add: ToukaPadding_def ToukaPaddingS_def)
  qed
  from a b c d show ?thesis
    by blast
qed

theorem install_profile_frame_witness:
  "Profile \<lparr>HeaderName = ''X-Pad'', Profile = Some (Obj 0)\<rparr> = Some (Obj 0)
   \<and> Addr_ProfileDefault \<noteq> Obj 0
   \<and> profiles (snd (ToukaPaddingS \<lparr>HeaderName = ''X-Pad'', Profile = Some (Obj 0)\<rparr>
        (new_PaddingProfile (Obj 0) \<lparr>MinLength = - 1, MaxLength = 5000\<rparr>
           (initial_world (sconst (drawn 0)))))) Addr_ProfileDefault
       = ProfileDefault
   \<and> validated \<lparr>MinLength = 10, MaxLength = 20\<rparr>
   \<and> profiles (snd (ToukaPadding \<lparr>HeaderName = ''X-Pad'', Profile = Some (Obj 0)\<rparr>
        (new_PaddingProfile (Obj 0) \<lparr>MinLength = 10, MaxLength = 20\<rparr>
           (initial_world (sconst (drawn 0)))))) (Obj 0)
       = \<lparr>MinLength = 10, MaxLength = 20\<rparr>
   \<and> \<not> validated \<lparr>MinLength = - 1, MaxLength = 5000\<rparr>
   \<and> profiles (snd (ToukaPaddingS \<lparr>HeaderName = ''X-Pad'', Profile = Some (Obj 0)\<rparr>
        (new_PaddingProfile (Obj 0) \<lparr>MinLength = - 1, MaxLength = 5000\<rparr>
           (initial_world (sconst (drawn 0)))))) (Obj 0)
       \<noteq> \<lparr>MinLength = - 1, MaxLength = 5000\<rparr>"
proof -
  define cfg where "cfg = \<lparr>HeaderName = ''X-Pad'', Profile = Some (Obj 0)\<rparr>"
  define good where
    "good = new_PaddingProfile (Obj 0) \<lparr>MinLength = 10, MaxLength = 20\<rparr>
              (initial_world (sconst (drawn 0)))"
  define bad where
    "bad = new_PaddingProfile (Obj 0) \<lparr>MinLength = - 1, MaxLength = 5000\<rparr>
              (initial_world (sconst (drawn 0)))"
  have h: "Profile cfg = Some (Obj 0)"
    by (simp add: cfg_def)
  have g: "profiles good (Obj 0) = \<lparr>MinLength = 10, MaxLength = 20\<rparr>"
    by (simp add: good_def new_PaddingProfile_def)
  have b: "profiles bad (Obj 0) = \<lparr>MinLength = - 1, MaxLength = 5000\<rparr>"
    "profiles bad Addr_ProfileDefault = ProfileDefault"
    by (simp_all add: bad_def new_PaddingProfile_def initial_world_def)
  have v: "validated \<lparr>MinLength = 10, MaxLength = 20\<rparr>"
    "\<not> validated \<lparr>MinLength = - 1, MaxLength = 5000\<rparr>"
    by (simp_all add: validated_def word_sle_eq word_sless_alt sint_maxPaddingSize)
  show ?thesis
    using h g b v install_profile_frame [OF h, of good] install_profile_frame [OF h, of bad]
    unfolding cfg_def [symmetric] good_def [symmetric] bad_def [symmetric]
    by simp
qed

section \<open>Properties of the response writer\<close>

lemma mu_free:
  fixes prw :: paddingResponseWriter
  assumes "\<not> mu prw"
  shows "prw\<lparr>mu := False\<rparr> = prw"
  using assms by (cases prw) simp

text \<open>Once the flag is set, \<open>WriteHeader\<close> returns at once and changes nothing.\<close>

lemma WriteHeader_done:
  assumes "wroteHeader prw" and "\<not> mu prw"
  shows "WriteHeader st prw s = (Returns (), prw, s)"
  using assms by (simp add: WriteHeader_def mu_Lock_def mu_Unlock_def mu_free)

text \<open>The first call, with the steps on the mutex carried out.\<close>

lemma WriteHeader_fresh:
  assumes "\<not> wroteHeader prw" and "\<not> mu prw"
  shows "WriteHeader st prw s =
     (case Profile (opts prw) of
        None \<Rightarrow>
          (Fails (panic ''runtime error: invalid memory address or nil pointer dereference''),
           prw\<lparr>wroteHeader := True\<rparr>, s)
      | Some p \<Rightarrow>
          (case randInt (MinLength (profiles s p)) (MaxLength (profiles s p)) s of
             (Fails f, s') \<Rightarrow> (Fails f, prw\<lparr>wroteHeader := True\<rparr>, s')
           | (Returns (Inl err), s') \<Rightarrow>
               (Returns (), call (WriteHeader_call st) (prw\<lparr>wroteHeader := True\<rparr>),
                log_Printf ''toukaPadding: failed to generate random padding length: %v''
                  [Err_arg err] s')
           | (Returns (Inr paddingLen), s') \<Rightarrow>
               if 0 <s paddingLen then
                 (case getPaddingSlice paddingLen s' of
                    (Fails f, s'') \<Rightarrow> (Fails f, prw\<lparr>wroteHeader := True\<rparr>, s'')
                  | (Returns paddingData, s'') \<Rightarrow>
                      (Returns (),
                       call (WriteHeader_call st)
                         (call (Header_Set_call (HeaderName (opts prw)) paddingData)
                            (prw\<lparr>wroteHeader := True\<rparr>)),
                       s''))
               else (Returns (), call (WriteHeader_call st) (prw\<lparr>wroteHeader := True\<rparr>), s')))"
proof -
  have e: "prw\<lparr>mu := True, wroteHeader := True, mu := False\<rparr> = prw\<lparr>wroteHeader := True\<rparr>"
    using assms(2) by (cases prw) simp
  show ?thesis
    using assms
    by (simp add: WriteHeader_def mu_Lock_def mu_Unlock_def e
        split: option.splits prod.splits outcome.splits sum.splits)
qed

lemma call_simps:
  "wroteHeader (call c prw) = wroteHeader prw"
  "mu (call c prw) = mu prw"
  "opts (call c prw) = opts prw"
  "calls (ResponseWriter (call c prw)) = calls (ResponseWriter prw) @ [c]"
  "Write_result (ResponseWriter (call c prw)) = Write_result (ResponseWriter prw)"
  by (simp_all add: call_def)

text \<open>Whatever the outcome of \<open>WriteHeader\<close>, the flag is set and the mutex is free afterwards.\<close>

lemma WriteHeader_post:
  assumes "\<not> mu prw" and "WriteHeader st prw s = (r, prw', s')"
  shows "wroteHeader prw'" and "\<not> mu prw'" and "opts prw' = opts prw"
proof -
  have "wroteHeader prw' \<and> \<not> mu prw' \<and> opts prw' = opts prw"
  proof (cases "wroteHeader prw")
    case True
    with assms WriteHeader_done [of prw st s] show ?thesis by simp
  next
    case False
    with assms show ?thesis
      by (auto simp: WriteHeader_fresh call_simps
          split: option.splits prod.splits outcome.splits sum.splits if_splits)
  qed
  then show "wroteHeader prw'" and "\<not> mu prw'" and "opts prw' = opts prw"
    by simp_all
qed

text \<open>
  What a first call that returns has asked of the wrapped writer: one \<open>Header().Set\<close>
  for the configured name exactly when a positive length was sampled, then one
  \<open>WriteHeader\<close> with the status.
\<close>

lemma WriteHeader_calls:
  assumes "\<not> wroteHeader prw" and "\<not> mu prw" and "WriteHeader st prw s = (Returns u, prw', s')"
  shows "\<exists>hs. calls (ResponseWriter prw') = calls (ResponseWriter prw) @ hs @ [WriteHeader_call st]
           \<and> ((hs = []
                 \<and> \<not> (\<exists>p n t. Profile (opts prw) = Some p
                        \<and> randInt (MinLength (profiles s p)) (MaxLength (profiles s p)) s
                            = (Returns (Inr n), t)
                        \<and> 0 <s n))
               \<or> (\<exists>v. hs = [Header_Set_call (HeaderName (opts prw)) v]
                     \<and> (\<exists>p n t. Profile (opts prw) = Some p
                          \<and> randInt (MinLength (profiles s p)) (MaxLength (profiles s p)) s
                              = (Returns (Inr n), t)
                          \<and> 0 <s n \<and> getPaddingSlice n t = (Returns v, s'))))"
  using assms(3) unfolding WriteHeader_fresh [OF assms(1,2)]
  by (auto simp: call_simps split: option.splits prod.splits outcome.splits sum.splits if_splits)

text \<open>A profile in validated form is sampled without a panic and without the range error.\<close>

lemma validated_randInt:
  assumes "validated pr"
  shows "\<exists>r s'. randInt (MinLength pr) (MaxLength pr) s = (Returns r, s')"
proof -
  from assms have le: "MinLength pr \<le>s MaxLength pr"
    by (simp add: validated_def)
  have "sint (MaxLength pr) - sint (MinLength pr) \<le> 4096"
  proof (cases "MinLength pr <s 0")
    case True
    with assms show ?thesis by (simp add: validated_def)
  next
    case False
    with assms show ?thesis
      by (simp add: validated_def word_sle_eq word_sless_alt sint_maxPaddingSize)
  qed
  then have "sint (MaxLength pr) - sint (MinLength pr) < 2 ^ 63 - 1"
    by simp
  with le show ?thesis
    by (rule randInt_returns)
qed

text \<open>
  With a pool of 4096 bytes and a profile in validated form, \<open>WriteHeader\<close> returns:
  it does not panic and does not block.
\<close>

lemma WriteHeader_returns:
  assumes mu: "\<not> mu prw" and p: "Profile (opts prw) = Some p"
    and v: "validated (profiles s p)" and pool: "length (precomputedPaddingData s) = 4096"
  shows "\<exists>prw' s'. WriteHeader st prw s = (Returns (), prw', s')"
proof (cases "wroteHeader prw")
  case True
  with mu show ?thesis by (simp add: WriteHeader_done)
next
  case False
  from validated_randInt [OF v, of s] obtain r t
    where r: "randInt (MinLength (profiles s p)) (MaxLength (profiles s p)) s = (Returns r, t)"
    by blast
  show ?thesis
  proof (cases r)
    case (Inl err)
    with r p show ?thesis
      by (simp add: WriteHeader_fresh [OF False mu])
  next
    case (Inr n)
    show ?thesis
    proof (cases "0 <s n")
      case True
      have "length (precomputedPaddingData t) = 4096"
        using randInt_frame(1) [OF r] pool by simp
      from getPaddingSlice_positive [OF this True] obtain bytes t'
        where "getPaddingSlice n t = (Returns bytes, t')"
        by blast
      with r p Inr True show ?thesis
        by (simp add: WriteHeader_fresh [OF False mu])
    next
      case F: False
      with r p Inr show ?thesis
        by (simp add: WriteHeader_fresh [OF False mu])
    qed
  qed
qed

text \<open>
  Claim C1, as stated, fails where no padding is due: the padding header is then set not
  once but never. With the profile \<open>{0, 0}\<close> installed, the first \<open>WriteHeader\<close> on a
  new wrapper returns and the wrapped writer has received the status and nothing else.
\<close>

theorem WriteHeader_zero_length_counterexample:
  "fst (WriteHeader 200
          (ToukaPaddingS_handler
             (fst (ToukaPaddingS \<lparr>HeaderName = ''X-Pad'', Profile = Some (Obj 0)\<rparr>
                (new_PaddingProfile (Obj 0) \<lparr>MinLength = 0, MaxLength = 0\<rparr>
                   (initial_world (sconst (drawn 5))))))
             recording_writer)
          (snd (ToukaPaddingS \<lparr>HeaderName = ''X-Pad'', Profile = Some (Obj 0)\<rparr>
             (new_PaddingProfile (Obj 0) \<lparr>MinLength = 0, MaxLength = 0\<rparr>
                (initial_world (sconst (drawn 5)))))))
     = Returns ()
   \<and> calls (ResponseWriter (fst (snd (WriteHeader 200
          (ToukaPaddingS_handler
             (fst (ToukaPaddingS \<lparr>HeaderName = ''X-Pad'', Profile = Some (Obj 0)\<rparr>
                (new_PaddingProfile (Obj 0) \<lparr>MinLength = 0, MaxLength = 0\<rparr>
                   (initial_world (sconst (drawn 5))))))
             recording_writer)
          (snd (ToukaPaddingS \<lparr>HeaderName = ''X-Pad'', Profile = Some (Obj 0)\<rparr>
             (new_PaddingProfile (Obj 0) \<lparr>MinLength = 0, MaxLength = 0\<rparr>
                (initial_world (sconst (drawn 5))))))))))
     = [WriteHeader_call 200]"
proof -
  define cfg where "cfg = \<lparr>HeaderName = ''X-Pad'', Profile = Some (Obj 0)\<rparr>"
  define w where
    "w = new_PaddingProfile (Obj 0) \<lparr>MinLength = 0, MaxLength = 0\<rparr>
           (initial_world (sconst (drawn 5)))"
  define cfg1 where "cfg1 = fst (validate ''toukaPadding'' cfg w)"
  define w1 where "w1 = snd (validate ''toukaPadding'' cfg w)"
  have c: "Profile cfg = Some (Obj 0)"
    by (simp add: cfg_def)
  have pr: "profiles w (Obj 0) = \<lparr>MinLength = 0, MaxLength = 0\<rparr>"
    by (simp add: w_def new_PaddingProfile_def)
  have a: "Profile cfg1 = Some (Obj 0)"
    by (simp add: cfg1_def validate_result(2) cfg_def)
  have b: "profiles w1 (Obj 0) = \<lparr>MinLength = 0, MaxLength = 0\<rparr>"
    using c pr by (simp add: w1_def validate_result(3) word_sless_alt sint_maxPaddingSize)
  have r: "randInt 0 0 w1 = (Returns (Inr 0), w1)"
    by (simp add: randInt_def)
  have f: "\<not> wroteHeader (ToukaPaddingS_handler cfg1 recording_writer)"
    "\<not> mu (ToukaPaddingS_handler cfg1 recording_writer)"
    by (simp_all add: ToukaPaddingS_handler_def)
  have o: "opts (ToukaPaddingS_handler cfg1 recording_writer) = cfg1"
    by (simp add: ToukaPaddingS_handler_def)
  have "WriteHeader 200 (ToukaPaddingS_handler cfg1 recording_writer) w1
          = (Returns (),
             call (WriteHeader_call 200)
               ((ToukaPaddingS_handler cfg1 recording_writer)\<lparr>wroteHeader := True\<rparr>),
             w1)"
    using a b r o
    by (simp add: WriteHeader_fresh [OF f] word_sless_alt)
  then show ?thesis
    unfolding cfg_def [symmetric] w_def [symmetric] ToukaPaddingS_def
      cfg1_def [symmetric] w1_def [symmetric]
    by (simp add: call_simps ToukaPaddingS_handler_def recording_writer_def)
qed

text \<open>
  Claim C1, amended. For every wrapper whose mutex is free (as it is between the calls of
  one goroutine) and every outcome of a call of \<open>WriteHeader\<close>, a further call returns
  normally and leaves the wrapper, the wrapped writer and the rest of the state exactly as
  they were: it sets no header and no status, delegates nothing, and neither errors nor
  panics. If the first call was made on a fresh wrapper and returned, the wrapped writer
  has received from both calls together exactly one \<open>WriteHeader\<close>, with the first
  status, preceded by exactly one \<open>Header().Set\<close> of the configured header when a positive
  padding length was sampled, and by none when the sampled length was not positive or
  sampling failed. If the flag was already set, the first call was such a no-op itself.
  With a pool of 4096 bytes and a profile in validated form the first call does return.
\<close>

theorem WriteHeader_idempotent:
  assumes "\<not> mu prw" and "WriteHeader st1 prw s = (r1, prw1, s1)"
  shows "WriteHeader st2 prw1 s1 = (Returns (), prw1, s1)
       \<and> (\<not> wroteHeader prw \<longrightarrow> r1 = Returns () \<longrightarrow>
            (\<exists>hs. calls (ResponseWriter prw1)
                    = calls (ResponseWriter prw) @ hs @ [WriteHeader_call st1]
                 \<and> ((hs = []
                       \<and> \<not> (\<exists>p n t. Profile (opts prw) = Some p
                              \<and> randInt (MinLength (profiles s p)) (MaxLength (profiles s p)) s
                                  = (Returns (Inr n), t)
                              \<and> 0 <s n))
                     \<or> (\<exists>v. hs = [Header_Set_call (HeaderName (opts prw)) v]
                           \<and> (\<exists>p n t. Profile (opts prw) = Some p
                                \<and> randInt (MinLength (profiles s p)) (MaxLength (profiles s p)) s
                                    = (Returns (Inr n), t)
                                \<and> 0 <s n \<and> getPaddingSlice n t = (Returns v, s1))))))
       \<and> (wroteHeader prw \<longrightarrow> r1 = Returns () \<and> prw1 = prw \<and> s1 = s)
       \<and> (\<forall>p. Profile (opts prw) = Some p \<and> validated (profiles s p)
                \<and> length (precomputedPaddingData s) = 4096 \<longrightarrow> r1 = Returns ())"
proof (intro conjI impI allI)
  show "WriteHeader st2 prw1 s1 = (Returns (), prw1, s1)"
    using WriteHeader_post(1,2) [OF assms] by (rule WriteHeader_done)
next
  assume "\<not> wroteHeader prw" and "r1 = Returns ()"
  with assms WriteHeader_calls [of prw st1 s "()" prw1 s1]
  show "\<exists>hs. calls (ResponseWriter prw1)
                    = calls (ResponseWriter prw) @ hs @ [WriteHeader_call st1]
                 \<and> ((hs = []
                       \<and> \<not> (\<exists>p n t. Profile (opts prw) = Some p
                              \<and> randInt (MinLength (profiles s p)) (MaxLength (profiles s p)) s
                                  = (Returns (Inr n), t)
                              \<and> 0 <s n))
                     \<or> (\<exists>v. hs = [Header_Set_call (HeaderName (opts prw)) v]
                           \<and> (\<exists>p n t. Profile (opts prw) = Some p
                                \<and> randInt (MinLength (profiles s p)) (MaxLength (profiles s p)) s
                                    = (Returns (Inr n), t)
                                \<and> 0 <s n \<and> getPaddingSlice n t = (Returns v, s1))))"
    by simp
next
  assume "wroteHeader prw"
  with assms WriteHeader_done [of prw st1 s] show "r1 = Returns ()" "prw1 = prw" "s1 = s"
    by simp_all
next
  fix p
  assume "Profile (opts prw) = Some p \<and> validated (profiles s p)
            \<and> length (precomputedPaddingData s) = 4096"
  with WriteHeader_returns [OF assms(1), of p s st1] assms(2) show "r1 = Returns ()"
    by auto
qed

lemma example_WriteHeader:
  "WriteHeader 200
     (ToukaPaddingS_handler \<lparr>HeaderName = ''X-Pad'', Profile = Some Addr_ProfileShort\<rparr> recording_writer)
     (initial_world (drawn 1000 ## drawn 7 ## sconst (failed (Error ''EOF''))))
   = (Returns (),
      \<lparr>ResponseWriter =
         \<lparr>calls = [Header_Set_call ''X-Pad'' (replicate 132 (CHR ''X'')), WriteHeader_call 200],
          Write_result = Write_result recording_writer\<rparr>,
       opts = \<lparr>HeaderName = ''X-Pad'', Profile = Some Addr_ProfileShort\<rparr>,
       wroteHeader = True, mu = False\<rparr>,
      initial_world (sconst (failed (Error ''EOF''))))"
proof -
  define w0 where "w0 = initial_world (drawn 1000 ## drawn 7 ## sconst (failed (Error ''EOF'')))"
  define w1 where "w1 = initial_world (drawn 7 ## sconst (failed (Error ''EOF'')))"
  define w2 where "w2 = initial_world (sconst (failed (Error ''EOF'')))"
  have a: "randInt 32 256 w0 = (Returns (Inr 132), w1)"
    by (simp add: randInt_def rand_Int_def w0_def w1_def initial_world_def word_sless_alt)
  have b: "randInt 0 3964 w1 = (Returns (Inr 7), w2)"
    by (simp add: randInt_def rand_Int_def w1_def w2_def initial_world_def word_sless_alt)
  have c: "getPaddingSlice 132 w1 = (Returns (replicate 132 (CHR ''X'')), w2)"
    using b
    by (simp add: getPaddingSlice_def maxPaddingSize_def word_sless_alt word_sle_eq
        slice_expr_def w2_def initial_world_def)
  have p: "profiles w0 Addr_ProfileShort = \<lparr>MinLength = 32, MaxLength = 256\<rparr>"
    by (simp add: w0_def initial_world_def ProfileShort_def)
  show ?thesis
    unfolding w0_def [symmetric] w2_def [symmetric]
    using a c p
    by (simp add: WriteHeader_fresh ToukaPaddingS_handler_def recording_writer_def call_def
        word_sless_alt)
qed

theorem WriteHeader_idempotent_witness:
  "\<not> mu (ToukaPaddingS_handler \<lparr>HeaderName = ''X-Pad'', Profile = Some Addr_ProfileShort\<rparr> recording_writer)
   \<and> WriteHeader 200
        (ToukaPaddingS_handler \<lparr>HeaderName = ''X-Pad'', Profile = Some Addr_ProfileShort\<rparr> recording_writer)
        (initial_world (drawn 1000 ## drawn 7 ## sconst (failed (Error ''EOF''))))
      = (Returns (),
         \<lparr>ResponseWriter =
            \<lparr>calls = [Header_Set_call ''X-Pad'' (replicate 132 (CHR ''X'')), WriteHeader_call 200],
             Write_result = Write_result recording_writer\<rparr>,
          opts = \<lparr>HeaderName = ''X-Pad'', Profile = Some Addr_ProfileShort\<rparr>,
          wroteHeader = True, mu = False\<rparr>,
         initial_world (sconst (failed (Error ''EOF''))))
   \<and> WriteHeader 404
        \<lparr>ResponseWriter =
            \<lparr>calls = [Header_Set_call ''X-Pad'' (replicate 132 (CHR ''X'')), WriteHeader_call 200],
             Write_result = Write_result recording_writer\<rparr>,
          opts = \<lparr>HeaderName = ''X-Pad'', Profile = Some Addr_ProfileShort\<rparr>,
          wroteHeader = True, mu = False\<rparr>
        (initial_world (sconst (failed (Error ''EOF''))))
      = (Returns (),
         \<lparr>ResponseWriter =
            \<lparr>calls = [Header_Set_call ''X-Pad'' (replicate 132 (CHR ''X'')), WriteHeader_call 200],
             Write_result = Write_result recording_writer\<rparr>,
          opts = \<lparr>HeaderName = ''X-Pad'', Profile = Some Addr_ProfileShort\<rparr>,
          wroteHeader = True, mu = False\<rparr>,
         initial_world (sconst (failed (Error ''EOF''))))"
proof -
  have m: "\<not> mu (ToukaPaddingS_handler \<lparr>HeaderName = ''X-Pad'', Profile = Some Addr_ProfileShort\<rparr> recording_writer)"
    by (simp add: ToukaPaddingS_handler_def)
  show ?thesis
    using m WriteHeader_idempotent [OF m example_WriteHeader, of 404, THEN conjunct1]
      example_WriteHeader
    by simp
qed

text \<open>
  Claim C2. On a wrapper on which \<open>WriteHeader\<close> has not run (flag unset, mutex free),
  \<open>Write\<close> is \<open>WriteHeader(200)\<close> followed by the wrapped writer's \<open>Write\<close>. When that
  \<open>WriteHeader\<close> returns, the wrapped writer has received, in this order: the
  \<open>Header().Set\<close> of the padding header if and only if a positive padding length was
  sampled, the \<open>WriteHeader\<close> with status 200, and only then the \<open>Write\<close> of the body
  bytes. With a pool of 4096 bytes and a profile in validated form, the \<open>WriteHeader\<close>
  does return.
\<close>

theorem Write_triggers_WriteHeader:
  assumes "\<not> wroteHeader prw" and "\<not> mu prw"
  shows "Write data prw s =
           (case WriteHeader StatusOK prw s of
              (Fails f, prw1, s1) \<Rightarrow> (Fails f, prw1, s1)
            | (Returns u, prw1, s1) \<Rightarrow>
                (Returns (Write_result (ResponseWriter prw1) (calls (ResponseWriter prw1)) data),
                 call (Write_call data) prw1, s1))
       \<and> StatusOK = 200
       \<and> (\<forall>u prw1 s1. WriteHeader StatusOK prw s = (Returns u, prw1, s1) \<longrightarrow>
            (\<exists>hs. calls (ResponseWriter (fst (snd (Write data prw s))))
                    = calls (ResponseWriter prw) @ hs @ [WriteHeader_call 200, Write_call data]
                 \<and> ((hs = []
                       \<and> \<not> (\<exists>p n t. Profile (opts prw) = Some p
                              \<and> randInt (MinLength (profiles s p)) (MaxLength (profiles s p)) s
                                  = (Returns (Inr n), t)
                              \<and> 0 <s n))
                     \<or> (\<exists>v. hs = [Header_Set_call (HeaderName (opts prw)) v]
                           \<and> (\<exists>p n t. Profile (opts prw) = Some p
                                \<and> randInt (MinLength (profiles s p)) (MaxLength (profiles s p)) s
                                    = (Returns (Inr n), t)
                                \<and> 0 <s n \<and> getPaddingSlice n t = (Returns v, s1))))))
       \<and> (\<forall>p. Profile (opts prw) = Some p \<and> validated (profiles s p)
                \<and> length (precomputedPaddingData s) = 4096 \<longrightarrow>
              (\<exists>prw1 s1. WriteHeader StatusOK prw s = (Returns (), prw1, s1)))"
proof -
  have e: "prw\<lparr>mu := True, mu := False\<rparr> = prw"
    using assms(2) by (cases prw) simp
  have w: "Write data prw s =
           (case WriteHeader StatusOK prw s of
              (Fails f, prw1, s1) \<Rightarrow> (Fails f, prw1, s1)
            | (Returns u, prw1, s1) \<Rightarrow>
                (Returns (Write_result (ResponseWriter prw1) (calls (ResponseWriter prw1)) data),
                 call (Write_call data) prw1, s1))"
    using assms by (simp add: Write_def mu_Lock_def mu_Unlock_def e)
  have c: "\<forall>u prw1 s1. WriteHeader StatusOK prw s = (Returns u, prw1, s1) \<longrightarrow>
            (\<exists>hs. calls (ResponseWriter (fst (snd (Write data prw s))))
                    = calls (ResponseWriter prw) @ hs @ [WriteHeader_call 200, Write_call data]
                 \<and> ((hs = []
                       \<and> \<not> (\<exists>p n t. Profile (opts prw) = Some p
                              \<and> randInt (MinLength (profiles s p)) (MaxLength (profiles s p)) s
                                  = (Returns (Inr n), t)
                              \<and> 0 <s n))
                     \<or> (\<exists>v. hs = [Header_Set_call (HeaderName (opts prw)) v]
                           \<and> (\<exists>p n t. Profile (opts prw) = Some p
                                \<and> randInt (MinLength (profiles s p)) (MaxLength (profiles s p)) s
                                    = (Returns (Inr n), t)
                                \<and> 0 <s n \<and> getPaddingSlice n t = (Returns v, s1)))))"
  proof (intro allI impI)
    fix u prw1 s1
    assume h: "WriteHeader StatusOK prw s = (Returns u, prw1, s1)"
    from WriteHeader_calls [OF assms h] obtain hs where
      hs: "calls (ResponseWriter prw1) = calls (ResponseWriter prw) @ hs @ [WriteHeader_call StatusOK]"
      and k: "(hs = []
                 \<and> \<not> (\<exists>p n t. Profile (opts prw) = Some p
                        \<and> randInt (MinLength (profiles s p)) (MaxLength (profiles s p)) s
                            = (Returns (Inr n), t)
                        \<and> 0 <s n))
               \<or> (\<exists>v. hs = [Header_Set_call (HeaderName (opts prw)) v]
                     \<and> (\<exists>p n t. Profile (opts prw) = Some p
                          \<and> randInt (MinLength (profiles s p)) (MaxLength (profiles s p)) s
                              = (Returns (Inr n), t)
                          \<and> 0 <s n \<and> getPaddingSlice n t = (Returns v, s1)))"
      by blast
    have "calls (ResponseWriter (fst (snd (Write data prw s))))
            = calls (ResponseWriter prw) @ hs @ [WriteHeader_call 200, Write_call data]"
      using h hs by (simp add: w call_simps StatusOK_def)
    with k show "\<exists>hs. calls (ResponseWriter (fst (snd (Write data prw s))))
                    = calls (ResponseWriter prw) @ hs @ [WriteHeader_call 200, Write_call data]
                 \<and> ((hs = []
                       \<and> \<not> (\<exists>p n t. Profile (opts prw) = Some p
                              \<and> randInt (MinLength (profiles s p)) (MaxLength (profiles s p)) s
                                  = (Returns (Inr n), t)
                              \<and> 0 <s n))
                     \<or> (\<exists>v. hs = [Header_Set_call (HeaderName (opts prw)) v]
                           \<and> (\<exists>p n t. Profile (opts prw) = Some p
                                \<and> randInt (MinLength (profiles s p)) (MaxLength (profiles s p)) s
                                    = (Returns (Inr n), t)
                                \<and> 0 <s n \<and> getPaddingSlice n t = (Returns v, s1))))"
      by blast
  qed
  have r: "\<forall>p. Profile (opts prw) = Some p \<and> validated (profiles s p)
                \<and> length (precomputedPaddingData s) = 4096 \<longrightarrow>
              (\<exists>prw1 s1. WriteHeader StatusOK prw s = (Returns (), prw1, s1))"
    using WriteHeader_returns [OF assms(2)] by blast
  from w c r show ?thesis
    by (simp only: StatusOK_def simp_thms)
qed


theorem Write_triggers_WriteHeader_witness:
  "\<not> wroteHeader (ToukaPaddingS_handler \<lparr>HeaderName = ''X-Pad'', Profile = Some Addr_ProfileShort\<rparr> recording_writer)
   \<and> \<not> mu (ToukaPaddingS_handler \<lparr>HeaderName = ''X-Pad'', Profile = Some Addr_ProfileShort\<rparr> recording_writer)
   \<and> Write ''hello''
        (ToukaPaddingS_handler \<lparr>HeaderName = ''X-Pad'', Profile = Some Addr_ProfileShort\<rparr> recording_writer)
        (initial_world (drawn 1000 ## drawn 7 ## sconst (failed (Error ''EOF''))))
      = (Returns (5, None),
         \<lparr>ResponseWriter =
            \<lparr>calls = [Header_Set_call ''X-Pad'' (replicate 132 (CHR ''X'')), WriteHeader_call 200,
                      Write_call ''hello''],
             Write_result = Write_result recording_writer\<rparr>,
          opts = \<lparr>HeaderName = ''X-Pad'', Profile = Some Addr_ProfileShort\<rparr>,
          wroteHeader = True, mu = False\<rparr>,
         initial_world (sconst (failed (Error ''EOF''))))"
proof -
  define prw where
    "prw = ToukaPaddingS_handler \<lparr>HeaderName = ''X-Pad'', Profile = Some Addr_ProfileShort\<rparr> recording_writer"
  have h: "\<not> wroteHeader prw" "\<not> mu prw"
    by (simp_all add: prw_def ToukaPaddingS_handler_def)
  show ?thesis
    using h example_WriteHeader
      Write_triggers_WriteHeader [OF h, of "''hello''"
        "initial_world (drawn 1000 ## drawn 7 ## sconst (failed (Error ''EOF'')))", THEN conjunct1]
    unfolding prw_def [symmetric]
    by (simp add: StatusOK_def call_def recording_writer_def)
qed

section \<open>Properties of the outbound middleware\<close>

text \<open>
  With a pool of 4096 bytes and a profile in validated form, the closure reaches the next
  stage: preparing the request does not panic.
\<close>

lemma pad_request_returns:
  assumes p: "Profile cfg = Some p" and v: "validated (profiles s p)"
    and pool: "length (precomputedPaddingData s) = 4096"
  shows "\<exists>req' s'. pad_request canon cfg req s = (Returns req', s')"
proof -
  from validated_randInt [OF v, of s] obtain r t
    where r: "randInt (MinLength (profiles s p)) (MaxLength (profiles s p)) s = (Returns r, t)"
    by blast
  show ?thesis
  proof (cases r)
    case (Inl err)
    with r p show ?thesis
      by (simp add: pad_request_def)
  next
    case (Inr n)
    show ?thesis
    proof (cases "0 <s n")
      case True
      have "length (precomputedPaddingData t) = 4096"
        using randInt_frame(1) [OF r] pool by simp
      from getPaddingSlice_positive [OF this True] obtain bytes t'
        where "getPaddingSlice n t = (Returns bytes, t')"
        by blast
      with r p Inr True show ?thesis
        by (simp add: pad_request_def)
    next
      case False
      with r p Inr show ?thesis
        by (simp add: pad_request_def)
    qed
  qed
qed

text \<open>
  Claim C8. Whenever sampling the length fails with an error, for the range error as for
  an error of the random source, both versions of the outbound closure call the next stage
  with the request exactly as it came in, and return exactly what the next stage returns.
  The state the next stage sees differs from the one before only in the random source and
  in the one line logged.
\<close>

theorem sampling_failure_forwards_request:
  assumes "Profile cfg = Some p"
    and "randInt (MinLength (profiles s p)) (MaxLength (profiles s p)) s = (Returns (Inl err), s')"
  shows "ToukaPadding_RoundTrip canon cfg next req s
           = next req (log_Printf ''httpc.ToukaPadding: failed to generate random padding length: %v''
                         [Err_arg err] s')
       \<and> ToukaPadding_ServeHTTP canon cfg nexth w req s
           = nexth w req (log_Printf ''httpc.ToukaPadding: failed to generate random padding length: %v''
                            [Err_arg err] s')
       \<and> precomputedPaddingData s' = precomputedPaddingData s
       \<and> profiles s' = profiles s"
  using assms randInt_frame(1,2) [OF assms(2)]
  by (simp add: ToukaPadding_RoundTrip_def ToukaPadding_ServeHTTP_def pad_request_def)

theorem sampling_failure_forwards_request_witness:
  "Profile \<lparr>HeaderName = ''X-Pad'', Profile = Some Addr_ProfileDefault\<rparr> = Some Addr_ProfileDefault
   \<and> randInt (MinLength (profiles (initial_world (sconst (failed (Error ''EOF'')))) Addr_ProfileDefault))
        (MaxLength (profiles (initial_world (sconst (failed (Error ''EOF'')))) Addr_ProfileDefault))
        (initial_world (sconst (failed (Error ''EOF''))))
       = (Returns (Inl (Error ''EOF'')), initial_world (sconst (failed (Error ''EOF''))))
   \<and> ToukaPadding_RoundTrip id \<lparr>HeaderName = ''X-Pad'', Profile = Some Addr_ProfileDefault\<rparr>
        (\<lambda>r t. (Returns r, t)) \<lparr>Header = None\<rparr> (initial_world (sconst (failed (Error ''EOF''))))
       = (Returns \<lparr>Header = None\<rparr>,
          log_Printf ''httpc.ToukaPadding: failed to generate random padding length: %v''
            [Err_arg (Error ''EOF'')] (initial_world (sconst (failed (Error ''EOF'')))))"
proof -
  define w where "w = initial_world (sconst (failed (Error ''EOF'')))"
  define cfg where "cfg = \<lparr>HeaderName = ''X-Pad'', Profile = Some Addr_ProfileDefault\<rparr>"
  have h: "Profile cfg = Some Addr_ProfileDefault"
    by (simp add: cfg_def)
  have pd: "profiles w Addr_ProfileDefault = \<lparr>MinLength = 96, MaxLength = 1024\<rparr>"
    by (simp add: w_def initial_world_def ProfileDefault_def)
  have "randInt 96 1024 w = (Returns (Inl (Error ''EOF'')), w)"
    by (simp add: randInt_def rand_Int_def w_def initial_world_def word_sless_alt)
  then have r: "randInt (MinLength (profiles w Addr_ProfileDefault))
             (MaxLength (profiles w Addr_ProfileDefault)) w
           = (Returns (Inl (Error ''EOF'')), w)"
    by (simp add: pd)
  show ?thesis
    using h r
      sampling_failure_forwards_request [OF h r, of id "\<lambda>r t. (Returns r, t)" "\<lparr>Header = None\<rparr>",
        THEN conjunct1]
    unfolding w_def [symmetric] cfg_def [symmetric]
    by simp
qed


section \<open>Profiles with equal bounds\<close>

text \<open>Validation of a profile \<open>{L, L}\<close> caps both bounds and does nothing else to it.\<close>

lemma validate_degenerate:
  assumes "Profile cfg = Some p" and "profiles s p = \<lparr>MinLength = L, MaxLength = L\<rparr>"
  shows "profiles (snd (validate prefix cfg s)) p
           = \<lparr>MinLength = (if maxPaddingSize <s L then maxPaddingSize else L),
              MaxLength = (if maxPaddingSize <s L then maxPaddingSize else L)\<rparr>"
  using assms
  by (auto simp: validate_result(3) word_sless_alt sint_maxPaddingSize)

text \<open>The padding of a positive fixed length: that many bytes, at most the whole pool.\<close>

lemma getPaddingSlice_length:
  assumes "length (precomputedPaddingData s) = 4096" and "0 <s n"
  shows "\<exists>v s'. getPaddingSlice n s = (Returns v, s')
           \<and> length v = nat (sint (if maxPaddingSize <s n then maxPaddingSize else n))"
proof -
  from getPaddingSlice_positive [OF assms] obtain start s'
    where g: "getPaddingSlice n s
                = (Returns (take (nat (sint (if maxPaddingSize <s n then maxPaddingSize else n)))
                              (drop start (precomputedPaddingData s))), s')"
      and st: "start + nat (sint (if maxPaddingSize <s n then maxPaddingSize else n)) \<le> 4096"
    by blast
  from st assms(1)
  have "length (take (nat (sint (if maxPaddingSize <s n then maxPaddingSize else n)))
                  (drop start (precomputedPaddingData s)))
          = nat (sint (if maxPaddingSize <s n then maxPaddingSize else n))"
    by simp
  with g show ?thesis
    by blast
qed

lemma pad_request_degenerate:
  assumes pool: "length (precomputedPaddingData s) = 4096" and p: "Profile cfg = Some p"
    and pr: "profiles s p = \<lparr>MinLength = L, MaxLength = L\<rparr>"
  shows "0 <s L \<Longrightarrow>
           \<exists>v s'. pad_request canon cfg req s
                    = (Returns (req\<lparr>Header := Some ((case Header req of None \<Rightarrow> Map.empty | Some h \<Rightarrow> h)
                                                     (canon (HeaderName cfg) \<mapsto> [v]))\<rparr>), s')
                 \<and> length v = nat (sint (if maxPaddingSize <s L then maxPaddingSize else L))"
    and "L \<le>s 0 \<Longrightarrow> pad_request canon cfg req s = (Returns req, s)"
proof -
  have r: "randInt L L s = (Returns (Inr L), s)"
    by (simp add: randInt_def)
  {
    assume pos: "0 <s L"
    from getPaddingSlice_length [OF pool pos] obtain v s'
      where g: "getPaddingSlice L s = (Returns v, s')"
        and l: "length v = nat (sint (if maxPaddingSize <s L then maxPaddingSize else L))"
      by blast
    from p pr r pos g
    have "pad_request canon cfg req s
            = (Returns (req\<lparr>Header := Some ((case Header req of None \<Rightarrow> Map.empty | Some h \<Rightarrow> h)
                                             (canon (HeaderName cfg) \<mapsto> [v]))\<rparr>), s')"
      by (simp add: pad_request_def Header_Set_def)
    with l
    show "\<exists>v s'. pad_request canon cfg req s
                    = (Returns (req\<lparr>Header := Some ((case Header req of None \<Rightarrow> Map.empty | Some h \<Rightarrow> h)
                                                     (canon (HeaderName cfg) \<mapsto> [v]))\<rparr>), s')
                 \<and> length v = nat (sint (if maxPaddingSize <s L then maxPaddingSize else L))"
      by blast
  }
  {
    assume "L \<le>s 0"
    then have "\<not> 0 <s L"
      by (simp add: word_sle_eq word_sless_alt)
    with p pr r show "pad_request canon cfg req s = (Returns req, s)"
      by (simp add: pad_request_def)
  }
qed

lemma WriteHeader_degenerate:
  assumes pool: "length (precomputedPaddingData s) = 4096" and p: "Profile cfg = Some p"
    and pr: "profiles s p = \<lparr>MinLength = L, MaxLength = L\<rparr>"
  shows "0 <s L \<Longrightarrow>
           \<exists>v prw' s'. WriteHeader st (ToukaPaddingS_handler cfg w) s = (Returns (), prw', s')
                 \<and> calls (ResponseWriter prw')
                     = calls w @ [Header_Set_call (HeaderName cfg) v, WriteHeader_call st]
                 \<and> length v = nat (sint (if maxPaddingSize <s L then maxPaddingSize else L))"
    and "L \<le>s 0 \<Longrightarrow>
           \<exists>prw'. WriteHeader st (ToukaPaddingS_handler cfg w) s = (Returns (), prw', s)
                 \<and> calls (ResponseWriter prw') = calls w @ [WriteHeader_call st]"
proof -
  have r: "randInt L L s = (Returns (Inr L), s)"
    by (simp add: randInt_def)
  have f: "\<not> wroteHeader (ToukaPaddingS_handler cfg w)" "\<not> mu (ToukaPaddingS_handler cfg w)"
    "opts (ToukaPaddingS_handler cfg w) = cfg"
    "calls (ResponseWriter (ToukaPaddingS_handler cfg w)) = calls w"
    by (simp_all add: ToukaPaddingS_handler_def)
  {
    assume pos: "0 <s L"
    from getPaddingSlice_length [OF pool pos] obtain v s'
      where g: "getPaddingSlice L s = (Returns v, s')"
        and l: "length v = nat (sint (if maxPaddingSize <s L then maxPaddingSize else L))"
      by blast
    define prw' where
      "prw' = call (WriteHeader_call st)
                (call (Header_Set_call (HeaderName cfg) v)
                   ((ToukaPaddingS_handler cfg w)\<lparr>wroteHeader := True\<rparr>))"
    from p pr r pos f g
    have "WriteHeader st (ToukaPaddingS_handler cfg w) s = (Returns (), prw', s')"
      by (simp add: WriteHeader_fresh [OF f(1,2)] prw'_def)
    moreover have "calls (ResponseWriter prw')
                     = calls w @ [Header_Set_call (HeaderName cfg) v, WriteHeader_call st]"
      using f(4) by (simp add: prw'_def call_simps)
    ultimately
    show "\<exists>v prw' s'. WriteHeader st (ToukaPaddingS_handler cfg w) s = (Returns (), prw', s')
                 \<and> calls (ResponseWriter prw')
                     = calls w @ [Header_Set_call (HeaderName cfg) v, WriteHeader_call st]
                 \<and> length v = nat (sint (if maxPaddingSize <s L then maxPaddingSize else L))"
      using l by blast
  }
  {
    assume "L \<le>s 0"
    then have "\<not> 0 <s L"
      by (simp add: word_sle_eq word_sless_alt)
    with p pr r f
    show "\<exists>prw'. WriteHeader st (ToukaPaddingS_handler cfg w) s = (Returns (), prw', s)
                 \<and> calls (ResponseWriter prw') = calls w @ [WriteHeader_call st]"
      by (simp add: WriteHeader_fresh [OF f(1,2)] call_simps)
  }
qed


text \<open>
  Claim C7, as stated, fails for \<open>L\<close> above the size of the pool. With the profile
  \<open>{5000, 5000}\<close> and the header name \<open>X-Pad\<close>, the request that reaches the next
  stage carries \<open>X-Pad\<close> with a value of 4096 bytes, not 5000.
\<close>

theorem degenerate_profile_5000_counterexample:
  "fst (ToukaPadding_RoundTrip id
          (fst (ToukaPadding \<lparr>HeaderName = ''X-Pad'', Profile = Some (Obj 0)\<rparr>
             (new_PaddingProfile (Obj 0) \<lparr>MinLength = 5000, MaxLength = 5000\<rparr>
                (initial_world (sconst (drawn 0))))))
          (\<lambda>r t. (Returns r, t)) \<lparr>Header = None\<rparr>
          (snd (ToukaPadding \<lparr>HeaderName = ''X-Pad'', Profile = Some (Obj 0)\<rparr>
             (new_PaddingProfile (Obj 0) \<lparr>MinLength = 5000, MaxLength = 5000\<rparr>
                (initial_world (sconst (drawn 0)))))))
     = Returns \<lparr>Header = Some [''X-Pad'' \<mapsto> [replicate 4096 (CHR ''X'')]]\<rparr>
   \<and> length (replicate 4096 (CHR ''X'')) \<noteq> nat (sint (5000 :: go_int))"
proof -
  define cfg where "cfg = \<lparr>HeaderName = ''X-Pad'', Profile = Some (Obj 0)\<rparr>"
  define w where
    "w = new_PaddingProfile (Obj 0) \<lparr>MinLength = 5000, MaxLength = 5000\<rparr>
           (initial_world (sconst (drawn 0)))"
  define cfg1 where "cfg1 = fst (validate ''httpc.ToukaPadding'' cfg w)"
  define w1 where "w1 = snd (validate ''httpc.ToukaPadding'' cfg w)"
  have c: "Profile cfg = Some (Obj 0)"
    by (simp add: cfg_def)
  have pr: "profiles w (Obj 0) = \<lparr>MinLength = 5000, MaxLength = 5000\<rparr>"
    by (simp add: w_def new_PaddingProfile_def)
  have big: "maxPaddingSize <s 5000"
    by (simp add: word_sless_alt sint_maxPaddingSize)
  have a: "Profile cfg1 = Some (Obj 0)" "HeaderName cfg1 = ''X-Pad''"
    by (simp_all add: cfg1_def validate_result(1,2) cfg_def)
  have b: "profiles w1 (Obj 0) = \<lparr>MinLength = maxPaddingSize, MaxLength = maxPaddingSize\<rparr>"
    using validate_degenerate [OF c pr, of "''httpc.ToukaPadding''"] big by (simp add: w1_def)
  have pool: "precomputedPaddingData w1 = replicate 4096 (CHR ''X'')"
    by (simp add: w1_def validate_result(4) w_def new_PaddingProfile_def initial_world_def)
  have r: "randInt maxPaddingSize maxPaddingSize w1 = (Returns (Inr maxPaddingSize), w1)"
    by (simp add: randInt_def)
  have z: "randInt 0 0 w1 = (Returns (Inr 0), w1)"
    by (simp add: randInt_def)
  have g: "getPaddingSlice maxPaddingSize w1 = (Returns (replicate 4096 (CHR ''X'')), w1)"
    using z pool
    by (simp add: getPaddingSlice_def slice_expr_def word_sle_eq word_sless_alt
        sint_maxPaddingSize)
  have pos: "0 <s maxPaddingSize"
    by (simp add: word_sless_alt sint_maxPaddingSize)
  have "pad_request id cfg1 \<lparr>Header = None\<rparr> w1
          = (Returns \<lparr>Header = Some [''X-Pad'' \<mapsto> [replicate 4096 (CHR ''X'')]]\<rparr>, w1)"
    using a b r g pos by (simp add: pad_request_def Header_Set_def)
  then show ?thesis
    unfolding cfg_def [symmetric] w_def [symmetric] ToukaPadding_def
      cfg1_def [symmetric] w1_def [symmetric]
    by (simp add: ToukaPadding_RoundTrip_def)
qed

text \<open>
  Claim C7, amended. In a state whose pool has 4096 bytes, take a profile \<open>{L, L}\<close> and
  any header name; an empty name stands for \<open>T-Padding\<close>. After installation:
  if \<open>L > 0\<close>, the outbound closure (in both versions) passes the request on with the
  configured header set to one value of exactly \<open>L\<close> bytes when \<open>L \<le> maxPaddingSize\<close> and of
  exactly \<open>maxPaddingSize\<close> bytes when \<open>L\<close> is larger, and \<open>WriteHeader\<close> on a new wrapper
  sets that header, with a value of that length, before it delegates the status;
  if \<open>L \<le> 0\<close>, the request is passed on as it came in and \<open>WriteHeader\<close> only delegates
  the status: no padding header is set.
\<close>

theorem degenerate_profile_header:
  assumes pool: "length (precomputedPaddingData s) = 4096"
    and pr: "profiles s p = \<lparr>MinLength = L, MaxLength = L\<rparr>"
  shows
    "(0 <s L \<longrightarrow>
        (\<exists>v s'.
           ToukaPadding_RoundTrip canon
               (fst (ToukaPadding \<lparr>HeaderName = hn, Profile = Some p\<rparr> s)) next req
               (snd (ToukaPadding \<lparr>HeaderName = hn, Profile = Some p\<rparr> s))
             = next (req\<lparr>Header := Some ((case Header req of None \<Rightarrow> Map.empty | Some h \<Rightarrow> h)
                                          (canon (if hn = [] then ''T-Padding'' else hn) \<mapsto> [v]))\<rparr>) s'
           \<and> ToukaPadding_ServeHTTP canon
               (fst (ToukaPadding \<lparr>HeaderName = hn, Profile = Some p\<rparr> s)) nexth rw req
               (snd (ToukaPadding \<lparr>HeaderName = hn, Profile = Some p\<rparr> s))
             = nexth rw (req\<lparr>Header := Some ((case Header req of None \<Rightarrow> Map.empty | Some h \<Rightarrow> h)
                                          (canon (if hn = [] then ''T-Padding'' else hn) \<mapsto> [v]))\<rparr>) s'
           \<and> length v = nat (sint (if maxPaddingSize <s L then maxPaddingSize else L)))
        \<and> (\<exists>v prw' s'.
             WriteHeader st
                 (ToukaPaddingS_handler (fst (ToukaPaddingS \<lparr>HeaderName = hn, Profile = Some p\<rparr> s)) w)
                 (snd (ToukaPaddingS \<lparr>HeaderName = hn, Profile = Some p\<rparr> s))
               = (Returns (), prw', s')
             \<and> calls (ResponseWriter prw')
                 = calls w @ [Header_Set_call (if hn = [] then ''T-Padding'' else hn) v,
                              WriteHeader_call st]
             \<and> length v = nat (sint (if maxPaddingSize <s L then maxPaddingSize else L))))
     \<and> (L \<le>s 0 \<longrightarrow>
          ToukaPadding_RoundTrip canon
              (fst (ToukaPadding \<lparr>HeaderName = hn, Profile = Some p\<rparr> s)) next req
              (snd (ToukaPadding \<lparr>HeaderName = hn, Profile = Some p\<rparr> s))
            = next req (snd (ToukaPadding \<lparr>HeaderName = hn, Profile = Some p\<rparr> s))
          \<and> ToukaPadding_ServeHTTP canon
              (fst (ToukaPadding \<lparr>HeaderName = hn, Profile = Some p\<rparr> s)) nexth rw req
              (snd (ToukaPadding \<lparr>HeaderName = hn, Profile = Some p\<rparr> s))
            = nexth rw req (snd (ToukaPadding \<lparr>HeaderName = hn, Profile = Some p\<rparr> s))
          \<and> (\<exists>prw'.
               WriteHeader st
                   (ToukaPaddingS_handler (fst (ToukaPaddingS \<lparr>HeaderName = hn, Profile = Some p\<rparr> s)) w)
                   (snd (ToukaPaddingS \<lparr>HeaderName = hn, Profile = Some p\<rparr> s))
                 = (Returns (), prw', snd (ToukaPaddingS \<lparr>HeaderName = hn, Profile = Some p\<rparr> s))
               \<and> calls (ResponseWriter prw') = calls w @ [WriteHeader_call st]))"
proof -
  define cfg where "cfg = \<lparr>HeaderName = hn, Profile = Some p\<rparr>"
  define name where "name = (if hn = [] then ''T-Padding'' else hn)"
  define L' where "L' = (if maxPaddingSize <s L then maxPaddingSize else L)"
  define co where "co = fst (validate ''httpc.ToukaPadding'' cfg s)"
  define so where "so = snd (validate ''httpc.ToukaPadding'' cfg s)"
  define ci where "ci = fst (validate ''toukaPadding'' cfg s)"
  define si where "si = snd (validate ''toukaPadding'' cfg s)"
  have c: "Profile cfg = Some p"
    by (simp add: cfg_def)
  have o: "Profile co = Some p" "HeaderName co = name"
    "profiles so p = \<lparr>MinLength = L', MaxLength = L'\<rparr>"
    "length (precomputedPaddingData so) = 4096"
    using validate_degenerate [OF c pr, of "''httpc.ToukaPadding''"] pool
    by (simp_all add: co_def so_def validate_result(1,2,4) cfg_def name_def L'_def)
  have i: "Profile ci = Some p" "HeaderName ci = name"
    "profiles si p = \<lparr>MinLength = L', MaxLength = L'\<rparr>"
    "length (precomputedPaddingData si) = 4096"
    using validate_degenerate [OF c pr, of "''toukaPadding''"] pool
    by (simp_all add: ci_def si_def validate_result(1,2,4) cfg_def name_def L'_def)
  have cl: "(if maxPaddingSize <s L' then maxPaddingSize else L') = L'"
    by (simp add: L'_def word_sless_alt)
  have A: "\<exists>v s'.
           ToukaPadding_RoundTrip canon co next req so
             = next (req\<lparr>Header := Some ((case Header req of None \<Rightarrow> Map.empty | Some h \<Rightarrow> h)
                                          (canon name \<mapsto> [v]))\<rparr>) s'
           \<and> ToukaPadding_ServeHTTP canon co nexth rw req so
             = nexth rw (req\<lparr>Header := Some ((case Header req of None \<Rightarrow> Map.empty | Some h \<Rightarrow> h)
                                          (canon name \<mapsto> [v]))\<rparr>) s'
           \<and> length v = nat (sint L')"
    if pos: "0 <s L"
  proof -
    from pos have "0 <s L'"
      by (simp add: L'_def word_sless_alt sint_maxPaddingSize)
    from pad_request_degenerate(1) [OF o(4) o(1) o(3) this, of canon req] obtain v s'
      where "pad_request canon co req so
               = (Returns (req\<lparr>Header := Some ((case Header req of None \<Rightarrow> Map.empty | Some h \<Rightarrow> h)
                                                (canon name \<mapsto> [v]))\<rparr>), s')"
        and "length v = nat (sint L')"
      unfolding o(2) cl by blast
    then show ?thesis
      by (intro exI [of _ v] exI [of _ s'])
        (simp add: ToukaPadding_RoundTrip_def ToukaPadding_ServeHTTP_def)
  qed
  have B: "\<exists>v prw' s'.
             WriteHeader st (ToukaPaddingS_handler ci w) si = (Returns (), prw', s')
             \<and> calls (ResponseWriter prw') = calls w @ [Header_Set_call name v, WriteHeader_call st]
             \<and> length v = nat (sint L')"
    if pos: "0 <s L"
  proof -
    from pos have "0 <s L'"
      by (simp add: L'_def word_sless_alt sint_maxPaddingSize)
    from WriteHeader_degenerate(1) [OF i(4) i(1) i(3) this, of st w] show ?thesis
      unfolding i(2) cl .
  qed
  have C: "ToukaPadding_RoundTrip canon co next req so = next req so
          \<and> ToukaPadding_ServeHTTP canon co nexth rw req so = nexth rw req so"
    if neg: "L \<le>s 0"
  proof -
    from neg have "L' \<le>s 0"
      by (simp add: L'_def word_sle_eq word_sless_alt sint_maxPaddingSize)
    from pad_request_degenerate(2) [OF o(4) o(1) o(3) this, of canon req] show ?thesis
      by (simp add: ToukaPadding_RoundTrip_def ToukaPadding_ServeHTTP_def)
  qed
  have D: "\<exists>prw'. WriteHeader st (ToukaPaddingS_handler ci w) si = (Returns (), prw', si)
               \<and> calls (ResponseWriter prw') = calls w @ [WriteHeader_call st]"
    if neg: "L \<le>s 0"
  proof -
    from neg have "L' \<le>s 0"
      by (simp add: L'_def word_sle_eq word_sless_alt sint_maxPaddingSize)
    from WriteHeader_degenerate(2) [OF i(4) i(1) i(3) this, of st w] show ?thesis .
  qed
  from A B C D show ?thesis
    unfolding ToukaPadding_def ToukaPaddingS_def cfg_def [symmetric] co_def [symmetric]
      so_def [symmetric] ci_def [symmetric] si_def [symmetric] name_def [symmetric]
      L'_def [symmetric]
    by blast
qed


theorem degenerate_profile_header_witness:
  "length (precomputedPaddingData
      (new_PaddingProfile (Obj 0) \<lparr>MinLength = 10, MaxLength = 10\<rparr>
         (initial_world (sconst (drawn 5))))) = 4096
   \<and> profiles (new_PaddingProfile (Obj 0) \<lparr>MinLength = 10, MaxLength = 10\<rparr>
         (initial_world (sconst (drawn 5)))) (Obj 0)
       = \<lparr>MinLength = 10, MaxLength = 10\<rparr>
   \<and> (0 :: go_int) <s 10
   \<and> (\<exists>v s'.
         ToukaPadding_RoundTrip id
            (fst (ToukaPadding \<lparr>HeaderName = ''X-Pad'', Profile = Some (Obj 0)\<rparr>
                   (new_PaddingProfile (Obj 0) \<lparr>MinLength = 10, MaxLength = 10\<rparr>
                      (initial_world (sconst (drawn 5))))))
            (\<lambda>r t. (Returns r, t)) \<lparr>Header = None\<rparr>
            (snd (ToukaPadding \<lparr>HeaderName = ''X-Pad'', Profile = Some (Obj 0)\<rparr>
                   (new_PaddingProfile (Obj 0) \<lparr>MinLength = 10, MaxLength = 10\<rparr>
                      (initial_world (sconst (drawn 5))))))
           = (Returns \<lparr>Header = Some [''X-Pad'' \<mapsto> [v]]\<rparr>, s')
         \<and> length v = 10)
   \<and> (\<exists>v prw' s'.
         WriteHeader 200
            (ToukaPaddingS_handler
               (fst (ToukaPaddingS \<lparr>HeaderName = ''X-Pad'', Profile = Some (Obj 0)\<rparr>
                      (new_PaddingProfile (Obj 0) \<lparr>MinLength = 10, MaxLength = 10\<rparr>
                         (initial_world (sconst (drawn 5))))))
               recording_writer)
            (snd (ToukaPaddingS \<lparr>HeaderName = ''X-Pad'', Profile = Some (Obj 0)\<rparr>
                   (new_PaddingProfile (Obj 0) \<lparr>MinLength = 10, MaxLength = 10\<rparr>
                      (initial_world (sconst (drawn 5))))))
           = (Returns (), prw', s')
         \<and> calls (ResponseWriter prw') = [Header_Set_call ''X-Pad'' v, WriteHeader_call 200]
         \<and> length v = 10)"
proof -
  define w where
    "w = new_PaddingProfile (Obj 0) \<lparr>MinLength = 10, MaxLength = 10\<rparr>
           (initial_world (sconst (drawn 5)))"
  have h1: "length (precomputedPaddingData w) = 4096"
    by (simp add: w_def new_PaddingProfile_def initial_world_def)
  have h2: "profiles w (Obj 0) = \<lparr>MinLength = 10, MaxLength = 10\<rparr>"
    by (simp add: w_def new_PaddingProfile_def)
  have pos: "(0 :: go_int) <s 10" and small: "\<not> maxPaddingSize <s 10"
    by (simp_all add: word_sless_alt sint_maxPaddingSize)
  have e: "calls recording_writer = []"
    by (simp add: recording_writer_def)
  from degenerate_profile_header [OF h1 h2, of id "''X-Pad''" "\<lambda>r t. (Returns r, t)"
      "\<lparr>Header = None\<rparr>" "\<lambda>(u :: unit) r t. (Returns r, t)" "()" 200 recording_writer,
      THEN conjunct1, rule_format, OF pos]
  show ?thesis
    using h1 h2 pos small e unfolding w_def [symmetric]
    by simp blast
qed

end
